theory Spec2Isabelle
  imports Complex_Main "HOL-Library.Multiset" "HOL-Library.Sublist" "HOL-Library.Char_ord"
    "HOL-Library.List_Lexorder"
begin

section \<open>The provincial dashboard (class \<open>MapaProvincias\<close>)\<close>

text \<open>
  The dashboard script defines one class, \<open>MapaProvincias\<close>. Its constructor sets five
  fields to \<open>null\<close> and calls \<open>init\<close>, which loads two JSON documents and then draws a
  Leaflet map with one marker per province, a maxima panel and a legend; opening a
  province's popup draws a Chart.js bar chart.

  Conventions of the embedding:
  \<^item> a JSON number is a \<open>rat\<close> (every finite double is a rational; comparing two of them
    and taking the sign of their difference are exact);
  \<^item> a string is the list of the bytes of its UTF-8 encoding;
  \<^item> a JSON object that the code walks with \<open>Object.entries\<close> is the list of its
    (key, value) pairs in that order;
  \<^item> a field that may be \<open>null\<close> or \<open>undefined\<close> is an \<open>option\<close>;
  \<^item> the template strings that build HTML are records of the values substituted into
    them; the number formatting of \<open>toFixed\<close> and \<open>toLocaleString\<close> is not modelled;
  \<^item> a record field whose source name is used by several objects, or is a HOL constant,
    carries a suffix (\<open>map_t\<close> is \<open>this.map\<close>, \<open>color_catalogo\<close> is a catalog entry's
    \<open>color\<close>, and so on).
\<close>

subsection \<open>The loaded documents\<close>

record clase_datos =
  area_km2 :: rat
  porcentaje :: rat
  color :: string

record propiedades =
  provincia :: string
  area_total_km2 :: rat
  total_pixels :: rat
  clasificaciones :: "(string \<times> clase_datos) list"

record feature =
  properties :: propiedades
  coordinates :: "rat \<times> rat"

record clase_catalogo =
  nombre :: string
  color_catalogo :: string

record maximo =
  provincia_maximo :: string
  porcentaje_maximo :: rat
  color_maximo :: string

text \<open>The primary document: \<open>data.provincias\<close> and \<open>data.clasificaciones\<close>, either of
  which may be missing.\<close>

record documento =
  provincias :: "feature list option"
  clasificaciones_doc :: "(string \<times> clase_catalogo) list option"

subsection \<open>\<open>Array.prototype.sort\<close> with a comparator\<close>

text \<open>
  \<open>xs.sort(cmp)\<close> is stable, and puts \<open>a\<close> before \<open>b\<close> when \<open>cmp(a, b) < 0\<close>. It is
  modelled by a stable insertion sort: an element goes before the first element of the
  sorted rest that it does not have to follow.
\<close>

fun insertar :: "('a \<Rightarrow> 'a \<Rightarrow> rat) \<Rightarrow> 'a \<Rightarrow> 'a list \<Rightarrow> 'a list" where
  "insertar cmp x [] = [x]"
| "insertar cmp x (y # ys) =
     (if cmp x y \<le> 0 then x # y # ys else y # insertar cmp x ys)"

fun sort_js :: "('a \<Rightarrow> 'a \<Rightarrow> rat) \<Rightarrow> 'a list \<Rightarrow> 'a list" where
  "sort_js cmp [] = []"
| "sort_js cmp (x # xs) = insertar cmp x (sort_js cmp xs)"

subsection \<open>Markers and popups (\<open>agregarMarcadoresProvincias\<close>)\<close>

text \<open>
  Both callbacks given to \<open>L.geoJSON\<close> run the same loop over
  \<open>Object.entries(clasificaciones)\<close>, from \<open>claseDominante = null\<close> and
  \<open>maxPorcentaje = 0\<close>; \<open>pointToLayer\<close> keeps \<open>datos.color\<close> of the entry it selects,
  \<open>onEachFeature\<close> keeps the key \<open>nombre\<close> (here \<open>nom\<close>, as \<open>nombre\<close> is a field of the catalog).
  The loop takes what it keeps as \<open>sel\<close>.
\<close>

fun bucleDominante ::
  "(string \<Rightarrow> clase_datos \<Rightarrow> 'a) \<Rightarrow> (string \<times> clase_datos) list \<Rightarrow> 'a option \<times> rat \<Rightarrow> 'a option \<times> rat"
where
  "bucleDominante sel [] (claseDominante, maxPorcentaje) = (claseDominante, maxPorcentaje)"
| "bucleDominante sel ((nom, datos) # resto) (claseDominante, maxPorcentaje) =
     (if porcentaje datos > maxPorcentaje
      then bucleDominante sel resto (Some (sel nom datos), porcentaje datos)
      else bucleDominante sel resto (claseDominante, maxPorcentaje))"

text \<open>\<open>v || d\<close> on a string or \<open>null\<close>: \<open>null\<close> and the empty string are falsy.\<close>

definition o_logico :: "string option \<Rightarrow> string \<Rightarrow> string" where
  "o_logico v d = (case v of None \<Rightarrow> d | Some s \<Rightarrow> if s = [] then d else s)"

record circleMarker =
  latlng :: "rat \<times> rat"
  radius :: nat
  fillColor :: string
  color_trazo :: string
  weight :: nat

definition pointToLayer :: "feature \<Rightarrow> rat \<times> rat \<Rightarrow> circleMarker" where
  "pointToLayer f ll =
     (let props = properties f;
          (claseDominante, maxPorcentaje) =
             bucleDominante (\<lambda>nom datos. color datos) (clasificaciones props) (None, 0)
      in \<lparr>latlng = ll, radius = 12, fillColor = o_logico claseDominante ''#3388ff'',
          color_trazo = ''#fff'', weight = 3\<rparr>)"

text \<open>
  \<open>s.replace(/\s+/g, '-')\<close>: every maximal run of white space becomes one hyphen. A
  string is the UTF-8 encoding of the script's string. \<open>\s\<close> matches the six ASCII white
  space characters (one byte each), U+00A0 (two bytes), and U+1680, U+2000 to U+200A,
  U+2028, U+2029, U+202F, U+205F, U+3000 and U+FEFF (three bytes each).
  \<open>espacio_al_inicio s\<close> is the number of bytes of the white space character that \<open>s\<close>
  starts with, and 0 when it starts with none.
\<close>

definition espacio_al_inicio :: "string \<Rightarrow> nat" where
  "espacio_al_inicio s =
     (if take 1 s \<in> set [[CHR 0x09], [CHR 0x0A], [CHR 0x0B], [CHR 0x0C], [CHR 0x0D], [CHR 0x20]]
      then 1
      else if take 2 s = [CHR 0xC2, CHR 0xA0] then 2
      else if take 3 s \<in> set
             [[CHR 0xE1, CHR 0x9A, CHR 0x80],
              [CHR 0xE2, CHR 0x80, CHR 0x80], [CHR 0xE2, CHR 0x80, CHR 0x81],
              [CHR 0xE2, CHR 0x80, CHR 0x82], [CHR 0xE2, CHR 0x80, CHR 0x83],
              [CHR 0xE2, CHR 0x80, CHR 0x84], [CHR 0xE2, CHR 0x80, CHR 0x85],
              [CHR 0xE2, CHR 0x80, CHR 0x86], [CHR 0xE2, CHR 0x80, CHR 0x87],
              [CHR 0xE2, CHR 0x80, CHR 0x88], [CHR 0xE2, CHR 0x80, CHR 0x89],
              [CHR 0xE2, CHR 0x80, CHR 0x8A],
              [CHR 0xE2, CHR 0x80, CHR 0xA8], [CHR 0xE2, CHR 0x80, CHR 0xA9],
              [CHR 0xE2, CHR 0x80, CHR 0xAF], [CHR 0xE2, CHR 0x81, CHR 0x9F],
              [CHR 0xE3, CHR 0x80, CHR 0x80], [CHR 0xEF, CHR 0xBB, CHR 0xBF]]
      then 3
      else 0)"

text \<open>The scan: \<open>saltar\<close> counts the bytes still to skip of the white space character
  being replaced, and \<open>enRacha\<close> says that the run's hyphen has been written.\<close>

fun reemplazarEspacios :: "nat \<Rightarrow> bool \<Rightarrow> string \<Rightarrow> string" where
  "reemplazarEspacios saltar enRacha [] = []"
| "reemplazarEspacios (Suc saltar) enRacha (c # cs) = reemplazarEspacios saltar enRacha cs"
| "reemplazarEspacios 0 enRacha (c # cs) =
     (let n = espacio_al_inicio (c # cs) in
      if 0 < n
      then (if enRacha then reemplazarEspacios (n - 1) True cs
            else CHR ''-'' # reemplazarEspacios (n - 1) True cs)
      else c # reemplazarEspacios 0 False cs)"

definition canvasId :: "string \<Rightarrow> string" where
  "canvasId provinciaNombre = ''chart-'' @ reemplazarEspacios 0 False provinciaNombre"

text \<open>The popup bound to a marker: the values that \<open>popupContent\<close> interpolates.\<close>

record popup =
  popup_title :: string
  popup_area :: rat
  popup_pixeles :: rat
  popup_claseDominante :: "string option"
  popup_maxPorcentaje :: rat
  popup_canvas :: string

definition onEachFeature :: "feature \<Rightarrow> popup" where
  "onEachFeature f =
     (let props = properties f;
          (claseDominante, maxPorcentaje) =
             bucleDominante (\<lambda>nom datos. nom) (clasificaciones props) (None, 0)
      in \<lparr>popup_title = provincia props, popup_area = area_total_km2 props,
          popup_pixeles = total_pixels props, popup_claseDominante = claseDominante,
          popup_maxPorcentaje = maxPorcentaje, popup_canvas = canvasId (provincia props)\<rparr>)"

text \<open>One layer of \<open>provinciasLayer\<close>: the marker, its popup, and the two values that the
  \<open>popupopen\<close> handler has captured (\<open>props.provincia\<close> and \<open>clasificaciones\<close>).\<close>

record capa =
  marker :: circleMarker
  capa_popup :: popup
  capa_provincia :: string
  capa_clasificaciones :: "(string \<times> clase_datos) list"

subsection \<open>The application state\<close>

text \<open>The elements of \<open>datos\<close> in \<open>crearGraficoEnPopup\<close>.\<close>

record dato =
  nombre_dato :: string
  area :: rat
  porcentaje_dato :: rat
  color_dato :: string

text \<open>A Chart.js instance: the identifier the library gives it, its canvas, the
  configuration built by \<open>crearGraficoEnPopup\<close>, and the array \<open>datos\<close> that the
  tooltip callback \<open>afterLabel\<close> has captured.\<close>

record grafico =
  ident :: nat
  canvas :: string
  labels :: "string list"
  data :: "rat list"
  backgroundColor :: "string list"
  title_text :: string
  datos_tooltip :: "dato list"

record fila_maximo =
  maximo_clase :: string
  maximo_provincia :: string
  maximo_porcentaje :: rat
  maximo_color :: string

record fila_leyenda =
  legend_color :: string
  legend_nombre :: string

record mapa =
  center :: "rat \<times> rat"
  zoom :: nat

datatype evento =
    FetchEmitido string
  | FetchResuelto string
  | ConsoleError string
  | ConsoleLog string
  | ChartDestroy nat
  | ChartNew nat

text \<open>
  The five fields of \<open>this\<close>, and the part of the page the code acts on: the children of
  the elements \<open>maximosItems\<close> and \<open>legendItems\<close> (\<open>None\<close> until the code writes them),
  the identifiers of the canvases now in the document, the live Chart.js instances, the
  next chart identifier, and the trace of fetches, console calls and chart calls, in
  program order. The page markup is not among the sources: the elements that the code
  looks up without a check are taken to exist, and the calls into Leaflet and Chart.js
  are taken to return.
\<close>

record estado =
  map_t :: "mapa option"
  datosProvincias :: "feature list option"
  clasificaciones_t :: "(string \<times> clase_catalogo) list option"
  provinciasLayer :: "capa list option"
  chart :: "grafico option"
  maximosItems :: "fila_maximo list option"
  legendItems :: "fila_leyenda list option"
  canvases :: "string list"
  instancias :: "grafico list"
  siguienteId :: nat
  traza :: "evento list"

definition anotar :: "evento \<Rightarrow> estado \<Rightarrow> estado" where
  "anotar e s = s\<lparr>traza := traza s @ [e]\<rparr>"

text \<open>GeoJSON coordinates are (longitude, latitude); Leaflet hands \<open>pointToLayer\<close> the
  pair swapped.\<close>

definition coordsToLatLng :: "rat \<times> rat \<Rightarrow> rat \<times> rat" where
  "coordsToLatLng c = (snd c, fst c)"

definition geoJSON :: "feature \<Rightarrow> capa" where
  "geoJSON f =
     \<lparr>marker = pointToLayer f (coordsToLatLng (coordinates f)),
      capa_popup = onEachFeature f,
      capa_provincia = provincia (properties f),
      capa_clasificaciones = clasificaciones (properties f)\<rparr>"

definition agregarMarcadoresProvincias :: "estado \<Rightarrow> estado" where
  "agregarMarcadoresProvincias s =
     (case datosProvincias s of
        None \<Rightarrow> s
      | Some fs \<Rightarrow> s\<lparr>provinciasLayer := Some (map geoJSON fs)\<rparr>)"

definition inicializarMapa :: "estado \<Rightarrow> estado" where
  "inicializarMapa s =
     agregarMarcadoresProvincias
       (s\<lparr>map_t := Some \<lparr>center = (- 384161 / 10000, - 636167 / 10000), zoom = 4\<rparr>\<rparr>)"

subsection \<open>The detail chart (\<open>crearGraficoEnPopup\<close>)\<close>

definition destroy :: "grafico \<Rightarrow> estado \<Rightarrow> estado" where
  "destroy g s =
     s\<lparr>instancias := filter (\<lambda>h. ident h \<noteq> ident g) (instancias s),
       traza := traza s @ [ChartDestroy (ident g)]\<rparr>"

definition proyectar :: "string \<times> clase_datos \<Rightarrow> dato" where
  "proyectar e =
     (case e of (nom, datos) \<Rightarrow>
        \<lparr>nombre_dato = nom, area = area_km2 datos,
         porcentaje_dato = porcentaje datos, color_dato = color datos\<rparr>)"

definition crearGraficoEnPopup :: "string \<Rightarrow> (string \<times> clase_datos) list \<Rightarrow> estado \<Rightarrow> estado" where
  "crearGraficoEnPopup provinciaNombre clasifs s =
     (if canvasId provinciaNombre \<notin> set (canvases s) then s
      else
        let s1 = (case chart s of None \<Rightarrow> s | Some g \<Rightarrow> destroy g s);
            datos = sort_js (\<lambda>a b. area b - area a) (map proyectar clasifs);
            g = \<lparr>ident = siguienteId s1, canvas = canvasId provinciaNombre,
                 labels = map nombre_dato datos, data = map area datos,
                 backgroundColor = map color_dato datos,
                 title_text = ''Distribuci'' @ [CHR 0xC3, CHR 0xB3] @ ''n Real - '' @ provinciaNombre,
                 datos_tooltip = datos\<rparr>
        in s1\<lparr>chart := Some g, instancias := instancias s1 @ [g],
              siguienteId := Suc (siguienteId s1),
              traza := traza s1 @ [ChartNew (ident g)]\<rparr>)"

text \<open>The tooltip callback: \<open>datos[context.dataIndex].porcentaje\<close>, the number that is then
  formatted; an index outside \<open>datos\<close> raises.\<close>

definition afterLabel :: "grafico \<Rightarrow> nat \<Rightarrow> rat option" where
  "afterLabel g dataIndex =
     (if dataIndex < length (datos_tooltip g)
      then Some (porcentaje_dato (datos_tooltip g ! dataIndex)) else None)"

text \<open>The \<open>popupopen\<close> handler of a layer, when its timer fires in a document whose
  canvases are \<open>dom\<close>.\<close>

definition popupopen :: "string list \<times> capa \<Rightarrow> estado \<Rightarrow> estado" where
  "popupopen ev s =
     crearGraficoEnPopup (capa_provincia (snd ev)) (capa_clasificaciones (snd ev))
       (s\<lparr>canvases := fst ev\<rparr>)"

subsection \<open>The maxima panel and the legend\<close>

definition fila_de_maximo :: "string \<times> maximo \<Rightarrow> fila_maximo" where
  "fila_de_maximo e =
     (case e of (clase, datos) \<Rightarrow>
        \<lparr>maximo_clase = clase, maximo_provincia = provincia_maximo datos,
         maximo_porcentaje = porcentaje_maximo datos, maximo_color = color_maximo datos\<rparr>)"

definition crearGraficoMaximos :: "(string \<times> maximo) list \<Rightarrow> estado \<Rightarrow> estado" where
  "crearGraficoMaximos maximosData s =
     (let sortedMaximos =
            sort_js (\<lambda>a b. porcentaje_maximo (snd b) - porcentaje_maximo (snd a)) maximosData
      in s\<lparr>maximosItems := Some (map fila_de_maximo sortedMaximos)\<rparr>)"

definition fila_de_clase :: "string \<times> clase_catalogo \<Rightarrow> fila_leyenda" where
  "fila_de_clase e =
     (case e of (ident_clase, clase) \<Rightarrow>
        \<lparr>legend_color = color_catalogo clase, legend_nombre = nombre clase\<rparr>)"

text \<open>\<open>String.prototype.localeCompare\<close> is the platform's collation; the legend takes it as
  the parameter \<open>localeCompare\<close>.\<close>

definition crearLeyenda :: "(string \<Rightarrow> string \<Rightarrow> rat) \<Rightarrow> estado \<Rightarrow> estado" where
  "crearLeyenda localeCompare s =
     (let s1 = s\<lparr>legendItems := Some []\<rparr> in
      case clasificaciones_t s1 of
        None \<Rightarrow> s1
      | Some cat \<Rightarrow>
          let sortedClases =
                sort_js (\<lambda>a b. localeCompare (nombre (snd a)) (nombre (snd b))) cat
          in s1\<lparr>legendItems := Some (map fila_de_clase sortedClases)\<rparr>)"

subsection \<open>Loading and initialisation\<close>

text \<open>What the network answers to one \<open>fetch\<close> followed by \<open>response.json()\<close>: the fetch
  is rejected, or it resolves and the body does not parse, or it parses.\<close>

datatype 'a respuesta = Rechazada | NoEsJSON | Cuerpo 'a

record red =
  primario :: "documento respuesta"
  secundario :: "(string \<times> maximo) list respuesta"

datatype error = TypeError | SyntaxError

definition urlDatos :: string where
  "urlDatos = ''../outputs_analysis/datos_visualizacion_real.json''"

definition urlMaximos :: string where
  "urlMaximos = ''../outputs_analysis/maximos_por_clasificacion.json''"

text \<open>The three messages of \<open>console.error\<close>.\<close>

definition mensaje_cargando :: string where
  "mensaje_cargando = ''Error cargando datos:''"

definition mensaje_inicializando :: string where
  "mensaje_inicializando = ''Error inicializando:''"

definition mensaje_verifica :: string where
  "mensaje_verifica =
     ''Error cargando datos. Verifica que el archivo datos_visualizacion_real.json existe.''"

text \<open>The \<open>catch\<close> of \<open>cargarDatos\<close>: log, then throw the error again.\<close>

definition relanzar :: "error \<Rightarrow> estado \<Rightarrow> (error + documento) \<times> estado" where
  "relanzar e s = (Inl e, anotar (ConsoleError mensaje_cargando) s)"

definition cargarDatos :: "red \<Rightarrow> estado \<Rightarrow> (error + documento) \<times> estado" where
  "cargarDatos r s =
     (let s1 = anotar (FetchEmitido urlDatos) s in
      case primario r of
        Rechazada \<Rightarrow> relanzar TypeError s1
      | NoEsJSON \<Rightarrow> relanzar SyntaxError (anotar (FetchResuelto urlDatos) s1)
      | Cuerpo d \<Rightarrow>
          let s2 = anotar (FetchResuelto urlDatos) s1;
              s3 = s2\<lparr>datosProvincias := provincias d,
                      clasificaciones_t := clasificaciones_doc d\<rparr>;
              s4 = anotar (FetchEmitido urlMaximos) s3
          in (case secundario r of
                Rechazada \<Rightarrow> relanzar TypeError s4
              | NoEsJSON \<Rightarrow> relanzar SyntaxError (anotar (FetchResuelto urlMaximos) s4)
              | Cuerpo maximosData \<Rightarrow>
                  (let s5 = anotar (FetchResuelto urlMaximos) s4;
                       s6 = crearGraficoMaximos maximosData s5
                   in (Inr d, anotar (ConsoleLog ''Datos cargados exitosamente'') s6))))"

definition init :: "(string \<Rightarrow> string \<Rightarrow> rat) \<Rightarrow> red \<Rightarrow> estado \<Rightarrow> estado" where
  "init localeCompare r s =
     (case cargarDatos r s of
        (Inl e, s1) \<Rightarrow> anotar (ConsoleError mensaje_inicializando) s1
      | (Inr d, s1) \<Rightarrow>
          if datosProvincias s1 \<noteq> None \<and> clasificaciones_t s1 \<noteq> None
          then crearLeyenda localeCompare (inicializarMapa s1)
          else anotar (ConsoleError mensaje_verifica) s1)"

text \<open>\<open>new MapaProvincias()\<close> on a freshly loaded page.\<close>

definition pagina :: estado where
  "pagina =
     \<lparr>map_t = None, datosProvincias = None, clasificaciones_t = None,
      provinciasLayer = None, chart = None, maximosItems = None, legendItems = None,
      canvases = [], instancias = [], siguienteId = 0, traza = []\<rparr>"

definition MapaProvincias :: "(string \<Rightarrow> string \<Rightarrow> rat) \<Rightarrow> red \<Rightarrow> estado" where
  "MapaProvincias localeCompare r = init localeCompare r pagina"

text \<open>The state after the page has loaded and the given popups have been opened, in
  order.\<close>

definition sesion :: "(string \<Rightarrow> string \<Rightarrow> rat) \<Rightarrow> red \<Rightarrow> (string list \<times> capa) list \<Rightarrow> estado" where
  "sesion localeCompare r evs = fold popupopen evs (MapaProvincias localeCompare r)"

section \<open>The store\<close>

text \<open>
  The definitions above pass the loaded documents around as values. The script holds
  them as objects in memory and passes references: \<open>Object.entries\<close> and \<open>map\<close> build new
  arrays whose elements refer to the loaded objects, and \<open>sort\<close> reorders an array in
  place. This section makes the store explicit, to say which cells the renderers write.
  The renderers are stated again on references into the store; on parsed documents they
  compute what the renderers on values compute (the lemmas of the last subsection).

  A value is a number, a string, a reference to a cell, or \<open>undefined\<close>; a cell is an
  object (its properties in the order of \<open>Object.entries\<close>) or an array. The store is the
  list of its cells, a reference is an index into it, and a new cell is added at the end.
\<close>

datatype valor = Undefined | Num rat | Str string | Ref nat

datatype celda = Objeto "(string \<times> valor) list" | Arreglo "valor list"

type_synonym monton = "celda list"

definition alojar :: "celda \<Rightarrow> monton \<Rightarrow> valor \<times> monton" where
  "alojar c h = (Ref (length h), h @ [c])"

definition alojar_todos :: "celda list \<Rightarrow> monton \<Rightarrow> valor list \<times> monton" where
  "alojar_todos cs h = (map Ref [length h ..< length h + length cs], h @ cs)"

text \<open>Reading. On the documents of this model every read below finds what it looks for;
  where the script would raise on an ill-typed document, the readers give \<open>undefined\<close>,
  no property, no element, 0 or the empty string. A call that raises stops early: it
  writes no cell that the definitions below do not write.\<close>

definition entradas :: "monton \<Rightarrow> valor \<Rightarrow> (string \<times> valor) list" where
  "entradas h v =
     (case v of
        Ref a \<Rightarrow> (if a < length h then (case h ! a of Objeto ps \<Rightarrow> ps | Arreglo xs \<Rightarrow> []) else [])
      | _ \<Rightarrow> [])"

definition elementos :: "monton \<Rightarrow> valor \<Rightarrow> valor list" where
  "elementos h v =
     (case v of
        Ref a \<Rightarrow> (if a < length h then (case h ! a of Arreglo xs \<Rightarrow> xs | Objeto ps \<Rightarrow> []) else [])
      | _ \<Rightarrow> [])"

definition propiedad :: "monton \<Rightarrow> valor \<Rightarrow> string \<Rightarrow> valor" where
  "propiedad h v k = (case map_of (entradas h v) k of Some x \<Rightarrow> x | None \<Rightarrow> Undefined)"

definition indice :: "monton \<Rightarrow> valor \<Rightarrow> nat \<Rightarrow> valor" where
  "indice h v i = (if i < length (elementos h v) then elementos h v ! i else Undefined)"

definition numero :: "valor \<Rightarrow> rat" where
  "numero v = (case v of Num r \<Rightarrow> r | _ \<Rightarrow> 0)"

definition cadena :: "valor \<Rightarrow> string" where
  "cadena v = (case v of Str s \<Rightarrow> s | _ \<Rightarrow> [])"

subsection \<open>\<open>response.json()\<close>: the documents as cells\<close>

definition celda_clase :: "clase_datos \<Rightarrow> celda" where
  "celda_clase d =
     Objeto [(''area_km2'', Num (area_km2 d)), (''porcentaje'', Num (porcentaje d)),
             (''color'', Str (color d))]"

definition celda_catalogo :: "clase_catalogo \<Rightarrow> celda" where
  "celda_catalogo c = Objeto [(''nombre'', Str (nombre c)), (''color'', Str (color_catalogo c))]"

definition celda_maximo :: "maximo \<Rightarrow> celda" where
  "celda_maximo m =
     Objeto [(''provincia'', Str (provincia_maximo m)), (''porcentaje'', Num (porcentaje_maximo m)),
             (''color'', Str (color_maximo m))]"

text \<open>A mapping from keys to records: one cell per record, then the object that refers
  to them.\<close>

definition parse_mapa :: "('a \<Rightarrow> celda) \<Rightarrow> (string \<times> 'a) list \<Rightarrow> monton \<Rightarrow> valor \<times> monton" where
  "parse_mapa celda_de xs h =
     (let (refs, h1) = alojar_todos (map (\<lambda>e. celda_de (snd e)) xs) h
      in alojar (Objeto (zip (map fst xs) refs)) h1)"

definition parse_feature :: "feature \<Rightarrow> monton \<Rightarrow> valor \<times> monton" where
  "parse_feature f h =
     (let props = properties f;
          (rc, h1) = parse_mapa celda_clase (clasificaciones props) h;
          (rp, h2) = alojar (Objeto [(''provincia'', Str (provincia props)),
                                     (''area_total_km2'', Num (area_total_km2 props)),
                                     (''total_pixels'', Num (total_pixels props)),
                                     (''clasificaciones'', rc)]) h1;
          (rx, h3) = alojar (Arreglo [Num (fst (coordinates f)), Num (snd (coordinates f))]) h2;
          (rg, h4) = alojar (Objeto [(''type'', Str ''Point''), (''coordinates'', rx)]) h3
      in alojar (Objeto [(''type'', Str ''Feature''), (''properties'', rp), (''geometry'', rg)]) h4)"

fun parse_features :: "feature list \<Rightarrow> monton \<Rightarrow> valor list \<times> monton" where
  "parse_features [] h = ([], h)"
| "parse_features (f # fs) h =
     (let (r, h1) = parse_feature f h;
          (rs, h2) = parse_features fs h1
      in (r # rs, h2))"

definition parse_provincias :: "feature list \<Rightarrow> monton \<Rightarrow> valor \<times> monton" where
  "parse_provincias fs h = (let (rs, h1) = parse_features fs h in alojar (Arreglo rs) h1)"

definition campo :: "string \<Rightarrow> valor \<Rightarrow> (string \<times> valor) list" where
  "campo k v = (if v = Undefined then [] else [(k, v)])"

definition parse_documento :: "documento \<Rightarrow> monton \<Rightarrow> valor \<times> monton" where
  "parse_documento d h =
     (let (rp, h1) = (case provincias d of None \<Rightarrow> (Undefined, h)
                      | Some fs \<Rightarrow> parse_provincias fs h);
          (rc, h2) = (case clasificaciones_doc d of None \<Rightarrow> (Undefined, h1)
                      | Some cat \<Rightarrow> parse_mapa celda_catalogo cat h1)
      in alojar (Objeto (campo ''provincias'' rp @ campo ''clasificaciones'' rc)) h2)"

text \<open>The cells of both documents, as \<open>cargarDatos\<close> has them after its second
  \<open>response.json()\<close>: the references to \<open>data\<close> and to \<open>maximosData\<close>, and the store.\<close>

definition parse_ambos ::
  "documento \<Rightarrow> (string \<times> maximo) list \<Rightarrow> monton \<Rightarrow> (valor \<times> valor) \<times> monton" where
  "parse_ambos d ms h =
     (let (data_ref, h1) = parse_documento d h;
          (maximos_ref, h2) = parse_mapa celda_maximo ms h1
      in ((data_ref, maximos_ref), h2))"

subsection \<open>Reading the documents back\<close>

definition leer_clase :: "monton \<Rightarrow> valor \<Rightarrow> clase_datos" where
  "leer_clase h v =
     \<lparr>area_km2 = numero (propiedad h v ''area_km2''),
      porcentaje = numero (propiedad h v ''porcentaje''),
      color = cadena (propiedad h v ''color'')\<rparr>"

definition leer_catalogo :: "monton \<Rightarrow> valor \<Rightarrow> clase_catalogo" where
  "leer_catalogo h v =
     \<lparr>nombre = cadena (propiedad h v ''nombre''),
      color_catalogo = cadena (propiedad h v ''color'')\<rparr>"

definition leer_maximo :: "monton \<Rightarrow> valor \<Rightarrow> maximo" where
  "leer_maximo h v =
     \<lparr>provincia_maximo = cadena (propiedad h v ''provincia''),
      porcentaje_maximo = numero (propiedad h v ''porcentaje''),
      color_maximo = cadena (propiedad h v ''color'')\<rparr>"

definition leer_mapa :: "(monton \<Rightarrow> valor \<Rightarrow> 'a) \<Rightarrow> monton \<Rightarrow> valor \<Rightarrow> (string \<times> 'a) list" where
  "leer_mapa leer h v = map (\<lambda>e. (fst e, leer h (snd e))) (entradas h v)"

text \<open>An object \<open>{nombre, area, porcentaje, color}\<close> of \<open>datos\<close>.\<close>

definition leer_dato :: "monton \<Rightarrow> valor \<Rightarrow> dato" where
  "leer_dato h v =
     \<lparr>nombre_dato = cadena (propiedad h v ''nombre''),
      area = numero (propiedad h v ''area''),
      porcentaje_dato = numero (propiedad h v ''porcentaje''),
      color_dato = cadena (propiedad h v ''color'')\<rparr>"

definition leer_feature :: "monton \<Rightarrow> valor \<Rightarrow> feature" where
  "leer_feature h v =
     (let props = propiedad h v ''properties'';
          coords = propiedad h (propiedad h v ''geometry'') ''coordinates''
      in \<lparr>properties =
            \<lparr>provincia = cadena (propiedad h props ''provincia''),
             area_total_km2 = numero (propiedad h props ''area_total_km2''),
             total_pixels = numero (propiedad h props ''total_pixels''),
             clasificaciones = leer_mapa leer_clase h (propiedad h props ''clasificaciones'')\<rparr>,
          coordinates = (numero (indice h coords 0), numero (indice h coords 1))\<rparr>)"

definition leer_documento :: "monton \<Rightarrow> valor \<Rightarrow> documento" where
  "leer_documento h v =
     \<lparr>provincias =
        (if propiedad h v ''provincias'' = Undefined then None
         else Some (map (leer_feature h) (elementos h (propiedad h v ''provincias'')))),
      clasificaciones_doc =
        (if propiedad h v ''clasificaciones'' = Undefined then None
         else Some (leer_mapa leer_catalogo h (propiedad h v ''clasificaciones'')))\<rparr>"

subsection \<open>The renderers on the store\<close>

text \<open>\<open>Object.entries(obj)\<close>: a new array of new two-element arrays \<open>[key, value]\<close>; a
  value that is a reference is copied as a reference.\<close>

definition object_entries :: "valor \<Rightarrow> monton \<Rightarrow> valor \<times> monton" where
  "object_entries obj h =
     (let (pares, h1) = alojar_todos (map (\<lambda>e. Arreglo [Str (fst e), snd e]) (entradas h obj)) h
      in alojar (Arreglo pares) h1)"

text \<open>\<open>arr.sort(cmp)\<close> writes the sorted elements into the cell of \<open>arr\<close>.\<close>

definition sort_en_sitio :: "(valor \<Rightarrow> valor \<Rightarrow> rat) \<Rightarrow> valor \<Rightarrow> monton \<Rightarrow> monton" where
  "sort_en_sitio cmp arr h =
     (case arr of
        Ref a \<Rightarrow>
          (if a < length h
           then (case h ! a of Arreglo xs \<Rightarrow> h[a := Arreglo (sort_js cmp xs)] | Objeto ps \<Rightarrow> h)
           else h)
      | _ \<Rightarrow> h)"

text \<open>An entry \<open>[key, value]\<close> read as a pair, the value through \<open>leer\<close>.\<close>

definition leer_par :: "(monton \<Rightarrow> valor \<Rightarrow> 'a) \<Rightarrow> monton \<Rightarrow> valor \<Rightarrow> string \<times> 'a" where
  "leer_par leer h e = (cadena (indice h e 0), leer h (indice h e 1))"

text \<open>\<open>crearGraficoMaximos\<close>: the entries of \<open>maximosData\<close>, sorted in place, then one row
  per entry.\<close>

definition crearGraficoMaximos_m :: "valor \<Rightarrow> monton \<Rightarrow> fila_maximo list \<times> monton" where
  "crearGraficoMaximos_m maximosData h =
     (let (sortedMaximos, h1) = object_entries maximosData h;
          h2 = sort_en_sitio
                 (\<lambda>a b. porcentaje_maximo (snd (leer_par leer_maximo h1 b))
                        - porcentaje_maximo (snd (leer_par leer_maximo h1 a)))
                 sortedMaximos h1
      in (map (\<lambda>e. fila_de_maximo (leer_par leer_maximo h2 e)) (elementos h2 sortedMaximos), h2))"

text \<open>\<open>crearLeyenda\<close>, from the reference held in \<open>this.clasificaciones\<close>.\<close>

definition crearLeyenda_m ::
  "(string \<Rightarrow> string \<Rightarrow> rat) \<Rightarrow> valor \<Rightarrow> monton \<Rightarrow> fila_leyenda list \<times> monton" where
  "crearLeyenda_m localeCompare clasifs h =
     (if clasifs = Undefined then ([], h)
      else
        let (sortedClases, h1) = object_entries clasifs h;
            h2 = sort_en_sitio
                   (\<lambda>a b. localeCompare (nombre (snd (leer_par leer_catalogo h1 a)))
                                        (nombre (snd (leer_par leer_catalogo h1 b))))
                   sortedClases h1
        in (map (\<lambda>e. fila_de_clase (leer_par leer_catalogo h2 e)) (elementos h2 sortedClases), h2))"

text \<open>The callbacks of \<open>L.geoJSON\<close> on one feature: each takes the entries of the feature's
  class mapping and scans them.\<close>

definition pointToLayer_m :: "valor \<Rightarrow> monton \<Rightarrow> string \<times> monton" where
  "pointToLayer_m f h =
     (let props = propiedad h f ''properties'';
          clasifs = propiedad h props ''clasificaciones'';
          (es, h1) = object_entries clasifs h;
          (claseDominante, maxPorcentaje) =
             bucleDominante (\<lambda>nom datos. color datos)
               (map (leer_par leer_clase h1) (elementos h1 es)) (None, 0)
      in (o_logico claseDominante ''#3388ff'', h1))"

definition onEachFeature_m :: "valor \<Rightarrow> monton \<Rightarrow> (string option \<times> rat) \<times> monton" where
  "onEachFeature_m f h =
     (let props = propiedad h f ''properties'';
          clasifs = propiedad h props ''clasificaciones'';
          (es, h1) = object_entries clasifs h
      in (bucleDominante (\<lambda>nom datos. nom)
            (map (leer_par leer_clase h1) (elementos h1 es)) (None, 0), h1))"

fun marcadores_m :: "valor list \<Rightarrow> monton \<Rightarrow> (string \<times> string option \<times> rat) list \<times> monton" where
  "marcadores_m [] h = ([], h)"
| "marcadores_m (f # fs) h =
     (let (fill, h1) = pointToLayer_m f h;
          (dominante, h2) = onEachFeature_m f h1;
          (resto, h3) = marcadores_m fs h2
      in ((fill, dominante) # resto, h3))"

definition agregarMarcadoresProvincias_m ::
  "valor \<Rightarrow> monton \<Rightarrow> (string \<times> string option \<times> rat) list \<times> monton" where
  "agregarMarcadoresProvincias_m datos h =
     (if datos = Undefined then ([], h) else marcadores_m (elementos h datos) h)"

text \<open>\<open>arr.map(f)\<close> where \<open>f\<close> builds a new object per element, and where \<open>f\<close> picks a
  value out of each element: both make a new array.\<close>

definition map_objetos :: "(monton \<Rightarrow> valor \<Rightarrow> celda) \<Rightarrow> valor \<Rightarrow> monton \<Rightarrow> valor \<times> monton" where
  "map_objetos f arr h =
     (let (objetos, h1) = alojar_todos (map (f h) (elementos h arr)) h
      in alojar (Arreglo objetos) h1)"

definition map_valores :: "(monton \<Rightarrow> valor \<Rightarrow> valor) \<Rightarrow> valor \<Rightarrow> monton \<Rightarrow> valor \<times> monton" where
  "map_valores f arr h = alojar (Arreglo (map (f h) (elementos h arr))) h"

text \<open>
  \<open>crearGraficoEnPopup\<close> from the reference to a class mapping, past the canvas check.
  \<open>datos_m\<close> is the chain that builds \<open>datos\<close>: the entries, the new array of new objects
  \<open>{nombre, area, porcentaje, color}\<close>, sorted in place. \<open>columnas_m\<close> builds the new arrays
  \<open>labels\<close>, \<open>areas\<close> and \<open>colores\<close> and gives what the chart shows: labels, areas,
  colours, and the percentages the tooltip reads from \<open>datos\<close>.
\<close>

definition objeto_dato :: "monton \<Rightarrow> valor \<Rightarrow> celda" where
  "objeto_dato h e =
     Objeto [(''nombre'', indice h e 0),
             (''area'', propiedad h (indice h e 1) ''area_km2''),
             (''porcentaje'', propiedad h (indice h e 1) ''porcentaje''),
             (''color'', propiedad h (indice h e 1) ''color'')]"

definition datos_m :: "valor \<Rightarrow> monton \<Rightarrow> valor \<times> monton" where
  "datos_m clasifs h =
     (let (es, h1) = object_entries clasifs h;
          (datos, h2) = map_objetos objeto_dato es h1
      in (datos, sort_en_sitio
                   (\<lambda>a b. numero (propiedad h2 b ''area'') - numero (propiedad h2 a ''area''))
                   datos h2))"

definition columnas_m ::
  "valor \<Rightarrow> monton \<Rightarrow> (string list \<times> rat list \<times> string list \<times> rat list) \<times> monton" where
  "columnas_m datos h =
     (let (labels_ref, h1) = map_valores (\<lambda>h d. propiedad h d ''nombre'') datos h;
          (areas_ref, h2) = map_valores (\<lambda>h d. propiedad h d ''area'') datos h1;
          (colores_ref, h3) = map_valores (\<lambda>h d. propiedad h d ''color'') datos h2
      in ((map cadena (elementos h3 labels_ref), map numero (elementos h3 areas_ref),
           map cadena (elementos h3 colores_ref),
           map (\<lambda>d. numero (propiedad h3 d ''porcentaje'')) (elementos h3 datos)), h3))"

definition crearGraficoEnPopup_m ::
  "valor \<Rightarrow> monton \<Rightarrow> (string list \<times> rat list \<times> string list \<times> rat list) \<times> monton" where
  "crearGraficoEnPopup_m clasifs h = (let (datos, h1) = datos_m clasifs h in columnas_m datos h1)"

text \<open>A call of a renderer, and what a sequence of such calls does to the store.\<close>

datatype operacion =
    OpMarcadores valor
  | OpGrafico valor
  | OpMaximos valor
  | OpLeyenda valor

definition ejecutar :: "(string \<Rightarrow> string \<Rightarrow> rat) \<Rightarrow> operacion \<Rightarrow> monton \<Rightarrow> monton" where
  "ejecutar localeCompare op h =
     (case op of
        OpMarcadores v \<Rightarrow> snd (agregarMarcadoresProvincias_m v h)
      | OpGrafico v \<Rightarrow> snd (crearGraficoEnPopup_m v h)
      | OpMaximos v \<Rightarrow> snd (crearGraficoMaximos_m v h)
      | OpLeyenda v \<Rightarrow> snd (crearLeyenda_m localeCompare v h))"

subsection \<open>Consistent comparators, and the inputs of the examples\<close>

text \<open>A comparator that \<open>sort\<close> can rely on: any two elements are comparable, and the
  order it induces is transitive.\<close>

definition comparador_consistente :: "('a \<Rightarrow> 'a \<Rightarrow> rat) \<Rightarrow> bool" where
  "comparador_consistente cmp \<longleftrightarrow>
     (\<forall>a b. cmp a b \<le> 0 \<or> cmp b a \<le> 0) \<and>
     (\<forall>a b c. cmp a b \<le> 0 \<longrightarrow> cmp b c \<le> 0 \<longrightarrow> cmp a c \<le> 0)"

text \<open>The province of the scenario: Bosque 40 %, Agua 60 %.\<close>

definition ejemplo_buenos_aires :: feature where
  "ejemplo_buenos_aires =
     \<lparr>properties =
        \<lparr>provincia = ''Buenos Aires'', area_total_km2 = 307571, total_pixels = 3075710,
         clasificaciones =
           [(''Bosque'', \<lparr>area_km2 = 123028, porcentaje = 40, color = ''#397d49''\<rparr>),
            (''Agua'', \<lparr>area_km2 = 184543, porcentaje = 60, color = ''#419bdf''\<rparr>)]\<rparr>,
      coordinates = (- 60, - 36)\<rparr>"

text \<open>A province where two classes share the largest percentage.\<close>

definition ejemplo_empate :: feature where
  "ejemplo_empate =
     \<lparr>properties =
        \<lparr>provincia = ''La Pampa'', area_total_km2 = 1000, total_pixels = 10000,
         clasificaciones =
           [(''Bosque'', \<lparr>area_km2 = 200, porcentaje = 20, color = ''#397d49''\<rparr>),
            (''Pastizales'', \<lparr>area_km2 = 400, porcentaje = 40, color = ''#7a87c6''\<rparr>),
            (''Matorrales'', \<lparr>area_km2 = 400, porcentaje = 40, color = ''#88b053''\<rparr>)]\<rparr>,
      coordinates = (- 65, - 37)\<rparr>"

text \<open>A province whose class mapping is not empty and where no class has pixels.\<close>

definition ejemplo_sin_cobertura :: feature where
  "ejemplo_sin_cobertura =
     \<lparr>properties =
        \<lparr>provincia = ''Isla'', area_total_km2 = 0, total_pixels = 0,
         clasificaciones =
           [(''Agua'', \<lparr>area_km2 = 0, porcentaje = 0, color = ''#419bdf''\<rparr>),
            (''Bosque'', \<lparr>area_km2 = 0, porcentaje = 0, color = ''#397d49''\<rparr>)]\<rparr>,
      coordinates = (- 58, - 51)\<rparr>"

text \<open>A page that shows the canvas of the given popup.\<close>

definition pagina_con_canvas :: "string \<Rightarrow> estado" where
  "pagina_con_canvas cid = pagina\<lparr>canvases := [cid]\<rparr>"

text \<open>A class mapping where two classes have no area.\<close>

definition ejemplo_chaco :: "(string \<times> clase_datos) list" where
  "ejemplo_chaco =
     [(''Agua'', \<lparr>area_km2 = 0, porcentaje = 0, color = ''#419bdf''\<rparr>),
      (''Bosque'', \<lparr>area_km2 = 500, porcentaje = 100, color = ''#397d49''\<rparr>),
      (''Nieve y hielo'', \<lparr>area_km2 = 0, porcentaje = 0, color = ''#b39fe1''\<rparr>)]"

text \<open>A maxima document where two classes have the same percentage.\<close>

definition ejemplo_maximos :: "(string \<times> maximo) list" where
  "ejemplo_maximos =
     [(''Agua'', \<lparr>provincia_maximo = ''Tierra del Fuego'', porcentaje_maximo = 12, color_maximo = ''#419bdf''\<rparr>),
      (''Bosque'', \<lparr>provincia_maximo = ''Misiones'', porcentaje_maximo = 80, color_maximo = ''#397d49''\<rparr>),
      (''Nieve y hielo'', \<lparr>provincia_maximo = ''Santa Cruz'', porcentaje_maximo = 12, color_maximo = ''#b39fe1''\<rparr>)]"

text \<open>A catalog keyed by class number, in the order \<open>Object.entries\<close> walks such keys
  (ascending); its display names are not in alphabetical order.\<close>

definition ejemplo_catalogo :: "(string \<times> clase_catalogo) list" where
  "ejemplo_catalogo =
     [(''0'', \<lparr>nombre = ''Agua'', color_catalogo = ''#419bdf''\<rparr>),
      (''1'', \<lparr>nombre = ''Bosque'', color_catalogo = ''#397d49''\<rparr>),
      (''2'', \<lparr>nombre = ''Pastizales'', color_catalogo = ''#7a87c6''\<rparr>),
      (''5'', \<lparr>nombre = ''Matorrales'', color_catalogo = ''#88b053''\<rparr>)]"

text \<open>One collation to run the legend with: the order of the character codes.\<close>

definition orden_binario :: "string \<Rightarrow> string \<Rightarrow> rat" where
  "orden_binario a b = (if a < b then - 1 else if a = b then 0 else 1)"

text \<open>Four networks: one that serves both documents, one that rejects the first fetch,
  one whose primary document lacks \<open>provincias\<close>, and one that moreover rejects the
  second fetch.\<close>

definition ejemplo_red :: red where
  "ejemplo_red =
     \<lparr>primario = Cuerpo \<lparr>provincias = Some [ejemplo_buenos_aires, ejemplo_empate],
                          clasificaciones_doc = Some ejemplo_catalogo\<rparr>,
      secundario = Cuerpo ejemplo_maximos\<rparr>"

definition ejemplo_red_caida :: red where
  "ejemplo_red_caida = \<lparr>primario = Rechazada, secundario = Cuerpo ejemplo_maximos\<rparr>"

definition ejemplo_red_sin_provincias :: red where
  "ejemplo_red_sin_provincias =
     \<lparr>primario = Cuerpo \<lparr>provincias = None, clasificaciones_doc = Some ejemplo_catalogo\<rparr>,
      secundario = Cuerpo ejemplo_maximos\<rparr>"

text \<open>Two popups opened one after the other, each with its canvas in the document.\<close>

definition ejemplo_red_sin_provincias_caida :: red where
  "ejemplo_red_sin_provincias_caida =
     \<lparr>primario = Cuerpo \<lparr>provincias = None, clasificaciones_doc = Some ejemplo_catalogo\<rparr>,
      secundario = Rechazada\<rparr>"

definition ejemplo_aperturas :: "(string list \<times> capa) list" where
  "ejemplo_aperturas =
     [([''chart-Buenos-Aires''], geoJSON ejemplo_buenos_aires),
      ([''chart-La-Pampa''], geoJSON ejemplo_empate)]"

text \<open>The events of the trace that belong to a fetch.\<close>

definition es_fetch :: "evento \<Rightarrow> bool" where
  "es_fetch e = (case e of FetchEmitido u \<Rightarrow> True | FetchResuelto u \<Rightarrow> True | _ \<Rightarrow> False)"

section \<open>Properties\<close>

subsection \<open>The dominant class\<close>

text \<open>The loop leaves its accumulator alone when no entry exceeds the current maximum.\<close>

lemma bucleDominante_sin_mayor:
  "\<forall>e\<in>set cs. porcentaje (snd e) \<le> m \<Longrightarrow> bucleDominante sel cs (c, m) = (c, m)"
  by (induction cs) auto

text \<open>The loop selects the first entry whose percentage is the largest, when that
  percentage exceeds the initial maximum.\<close>

lemma bucleDominante_primer_maximo:
  assumes "m < porcentaje datos"
    and "\<forall>e\<in>set antes. porcentaje (snd e) < porcentaje datos"
    and "\<forall>e\<in>set despues. porcentaje (snd e) \<le> porcentaje datos"
  shows "bucleDominante sel (antes @ (nom, datos) # despues) (c, m)
           = (Some (sel nom datos), porcentaje datos)"
  using assms
proof (induction antes arbitrary: c m)
  case Nil
  then show ?case by (simp add: bucleDominante_sin_mayor)
next
  case (Cons a antes)
  obtain n d where a: "a = (n, d)" by (cases a)
  from Cons.prems have lt: "porcentaje d < porcentaje datos" by (simp add: a)
  show ?case
  proof (cases "m < porcentaje d")
    case True
    then show ?thesis using Cons.IH [of "porcentaje d" "Some (sel n d)"] Cons.prems lt
      by (simp add: a)
  next
    case False
    then show ?thesis using Cons.IH [of m c] Cons.prems by (simp add: a)
  qed
qed

text \<open>Every mapping with an entry above \<open>m\<close> has a first largest entry, so the two
  lemmas above cover every mapping.\<close>

lemma primer_maximo_existe:
  assumes "\<exists>e\<in>set cs. m < porcentaje (snd e)"
  shows "\<exists>antes nom datos despues. cs = antes @ (nom, datos) # despues \<and> m < porcentaje datos
           \<and> (\<forall>e\<in>set antes. porcentaje (snd e) < porcentaje datos)
           \<and> (\<forall>e\<in>set despues. porcentaje (snd e) \<le> porcentaje datos)"
proof -
  define M where "M = Max ((\<lambda>e. porcentaje (snd e)) ` set cs)"
  from assms have ne: "set cs \<noteq> {}" by auto
  have "M \<in> (\<lambda>e. porcentaje (snd e)) ` set cs"
    unfolding M_def using ne by (intro Max_in) auto
  then have "\<exists>e\<in>set cs. porcentaje (snd e) = M" by force
  then obtain antes x despues where
    cs: "cs = antes @ x # despues" and x: "porcentaje (snd x) = M"
    and pre: "\<forall>e\<in>set antes. porcentaje (snd e) \<noteq> M"
    using split_list_first_prop [of cs "\<lambda>e. porcentaje (snd e) = M"] by blast
  have le: "\<And>e. e \<in> set cs \<Longrightarrow> porcentaje (snd e) \<le> M"
    unfolding M_def by (rule Max_ge) auto
  obtain nom datos where xd: "x = (nom, datos)" by (cases x)
  have M: "porcentaje datos = M" using x xd by simp
  from assms le have "m < M" by (meson less_le_trans)
  moreover have "\<forall>e\<in>set antes. porcentaje (snd e) < M" using pre le cs by (simp add: less_le)
  moreover have "\<forall>e\<in>set despues. porcentaje (snd e) \<le> M" using le cs by simp
  ultimately have "cs = antes @ (nom, datos) # despues \<and> m < porcentaje datos
           \<and> (\<forall>e\<in>set antes. porcentaje (snd e) < porcentaje datos)
           \<and> (\<forall>e\<in>set despues. porcentaje (snd e) \<le> porcentaje datos)"
    using cs xd M by simp
  then show ?thesis by blast
qed

text \<open>
  Claim C1, as the code has it. The popup's dominant class is the key of the first entry
  with the largest percentage, provided that percentage is positive: the scan starts from
  \<open>maxPorcentaje = 0\<close> and replaces its choice only on a strictly larger percentage. When
  no entry has a positive percentage the choice stays \<open>null\<close> and the maximum stays 0.
\<close>

theorem dominante_popup:
  "(clasificaciones (properties f) = antes @ (nom, datos) # despues
      \<and> 0 < porcentaje datos
      \<and> (\<forall>e\<in>set antes. porcentaje (snd e) < porcentaje datos)
      \<and> (\<forall>e\<in>set despues. porcentaje (snd e) \<le> porcentaje datos)
    \<longrightarrow> popup_claseDominante (onEachFeature f) = Some nom
        \<and> popup_maxPorcentaje (onEachFeature f) = porcentaje datos)
   \<and> ((\<exists>e\<in>set (clasificaciones (properties f)). 0 < porcentaje (snd e))
    \<longrightarrow> (\<exists>pre k d post. clasificaciones (properties f) = pre @ (k, d) # post
          \<and> (\<forall>e\<in>set pre. porcentaje (snd e) < porcentaje d)
          \<and> (\<forall>e\<in>set post. porcentaje (snd e) \<le> porcentaje d)
          \<and> popup_claseDominante (onEachFeature f) = Some k
          \<and> popup_maxPorcentaje (onEachFeature f) = porcentaje d))
   \<and> ((\<forall>e\<in>set (clasificaciones (properties f)). porcentaje (snd e) \<le> 0)
    \<longrightarrow> popup_claseDominante (onEachFeature f) = None
        \<and> popup_maxPorcentaje (onEachFeature f) = 0)"
proof (intro conjI impI)
  assume "\<exists>e\<in>set (clasificaciones (properties f)). 0 < porcentaje (snd e)"
  from primer_maximo_existe [OF this] obtain pre k d post where
    *: "clasificaciones (properties f) = pre @ (k, d) # post" "0 < porcentaje d"
       "\<forall>e\<in>set pre. porcentaje (snd e) < porcentaje d"
       "\<forall>e\<in>set post. porcentaje (snd e) \<le> porcentaje d"
    by blast
  then have "popup_claseDominante (onEachFeature f) = Some k
      \<and> popup_maxPorcentaje (onEachFeature f) = porcentaje d"
    by (simp add: onEachFeature_def Let_def bucleDominante_primer_maximo)
  with * show "\<exists>pre k d post. clasificaciones (properties f) = pre @ (k, d) # post
          \<and> (\<forall>e\<in>set pre. porcentaje (snd e) < porcentaje d)
          \<and> (\<forall>e\<in>set post. porcentaje (snd e) \<le> porcentaje d)
          \<and> popup_claseDominante (onEachFeature f) = Some k
          \<and> popup_maxPorcentaje (onEachFeature f) = porcentaje d"
    by blast
qed (simp_all add: onEachFeature_def Let_def bucleDominante_primer_maximo bucleDominante_sin_mayor)

text \<open>In \<open>ejemplo_empate\<close> Pastizales and Matorrales both have 40 %; Pastizales comes
  first and is chosen.\<close>

theorem dominante_popup_witness:
  "popup_claseDominante (onEachFeature ejemplo_empate) = Some ''Pastizales''
   \<and> popup_maxPorcentaje (onEachFeature ejemplo_empate) = 40"
proof -
  let ?d = "\<lparr>area_km2 = 400, porcentaje = 40, color = ''#7a87c6''\<rparr>"
  have h: "clasificaciones (properties ejemplo_empate)
             = [(''Bosque'', \<lparr>area_km2 = 200, porcentaje = 20, color = ''#397d49''\<rparr>)]
               @ (''Pastizales'', ?d)
               # [(''Matorrales'', \<lparr>area_km2 = 400, porcentaje = 40, color = ''#88b053''\<rparr>)]
      \<and> 0 < porcentaje ?d
      \<and> (\<forall>e\<in>set [(''Bosque'', \<lparr>area_km2 = 200, porcentaje = 20, color = ''#397d49''\<rparr>)].
            porcentaje (snd e) < porcentaje ?d)
      \<and> (\<forall>e\<in>set [(''Matorrales'', \<lparr>area_km2 = 400, porcentaje = 40, color = ''#88b053''\<rparr>)].
            porcentaje (snd e) \<le> porcentaje ?d)"
    by (simp add: ejemplo_empate_def)
  have "popup_claseDominante (onEachFeature ejemplo_empate) = Some ''Pastizales''
        \<and> popup_maxPorcentaje (onEachFeature ejemplo_empate) = porcentaje ?d"
    by (rule dominante_popup [THEN conjunct1, THEN mp, OF h])
  then show ?thesis by simp
qed

text \<open>Claim C1 as stated fails: the mapping of \<open>ejemplo_sin_cobertura\<close> is not empty, and
  no entry of it is chosen.\<close>

theorem dominante_popup_counterexample:
  "clasificaciones (properties ejemplo_sin_cobertura) \<noteq> []
   \<and> popup_claseDominante (onEachFeature ejemplo_sin_cobertura) = None"
  by (simp add: ejemplo_sin_cobertura_def onEachFeature_def)

text \<open>
  Claim C5, as the code has it. The marker's fill colour is the colour of the first entry
  with the largest percentage when that percentage is positive and the colour is not the
  empty string; the fallback \<open>#3388ff\<close> is used when no entry has a positive percentage
  (an empty mapping is one such case) and when the selected colour is empty.
\<close>

theorem color_marcador:
  "(clasificaciones (properties f) = antes @ (nom, datos) # despues
      \<and> 0 < porcentaje datos
      \<and> (\<forall>e\<in>set antes. porcentaje (snd e) < porcentaje datos)
      \<and> (\<forall>e\<in>set despues. porcentaje (snd e) \<le> porcentaje datos)
    \<longrightarrow> fillColor (pointToLayer f ll) = (if color datos = [] then ''#3388ff'' else color datos))
   \<and> ((\<exists>e\<in>set (clasificaciones (properties f)). 0 < porcentaje (snd e))
    \<longrightarrow> (\<exists>pre k d post. clasificaciones (properties f) = pre @ (k, d) # post
          \<and> (\<forall>e\<in>set pre. porcentaje (snd e) < porcentaje d)
          \<and> (\<forall>e\<in>set post. porcentaje (snd e) \<le> porcentaje d)
          \<and> fillColor (pointToLayer f ll) = (if color d = [] then ''#3388ff'' else color d)))
   \<and> ((\<forall>e\<in>set (clasificaciones (properties f)). porcentaje (snd e) \<le> 0)
    \<longrightarrow> fillColor (pointToLayer f ll) = ''#3388ff'')"
proof (intro conjI impI)
  assume "\<exists>e\<in>set (clasificaciones (properties f)). 0 < porcentaje (snd e)"
  from primer_maximo_existe [OF this] obtain pre k d post where
    *: "clasificaciones (properties f) = pre @ (k, d) # post" "0 < porcentaje d"
       "\<forall>e\<in>set pre. porcentaje (snd e) < porcentaje d"
       "\<forall>e\<in>set post. porcentaje (snd e) \<le> porcentaje d"
    by blast
  then have "fillColor (pointToLayer f ll) = (if color d = [] then ''#3388ff'' else color d)"
    by (simp add: pointToLayer_def Let_def o_logico_def bucleDominante_primer_maximo)
  with * show "\<exists>pre k d post. clasificaciones (properties f) = pre @ (k, d) # post
          \<and> (\<forall>e\<in>set pre. porcentaje (snd e) < porcentaje d)
          \<and> (\<forall>e\<in>set post. porcentaje (snd e) \<le> porcentaje d)
          \<and> fillColor (pointToLayer f ll) = (if color d = [] then ''#3388ff'' else color d)"
    by blast
qed (simp_all add: pointToLayer_def Let_def o_logico_def bucleDominante_primer_maximo
      bucleDominante_sin_mayor)

text \<open>The scenario of the specification: with Bosque at 40 % and Agua at 60 %, the marker
  of Buenos Aires has Agua's colour.\<close>

theorem color_marcador_witness:
  "fillColor (marker (geoJSON ejemplo_buenos_aires)) = ''#419bdf''"
proof -
  let ?d = "\<lparr>area_km2 = 184543, porcentaje = 60, color = ''#419bdf''\<rparr>"
  have h: "clasificaciones (properties ejemplo_buenos_aires)
             = [(''Bosque'', \<lparr>area_km2 = 123028, porcentaje = 40, color = ''#397d49''\<rparr>)]
               @ (''Agua'', ?d) # []
      \<and> 0 < porcentaje ?d
      \<and> (\<forall>e\<in>set [(''Bosque'', \<lparr>area_km2 = 123028, porcentaje = 40, color = ''#397d49''\<rparr>)].
            porcentaje (snd e) < porcentaje ?d)
      \<and> (\<forall>e\<in>set []. porcentaje (snd e) \<le> porcentaje ?d)"
    by (simp add: ejemplo_buenos_aires_def)
  have "fillColor (pointToLayer ejemplo_buenos_aires (coordsToLatLng (coordinates ejemplo_buenos_aires)))
          = (if color ?d = [] then ''#3388ff'' else color ?d)"
    by (rule color_marcador [THEN conjunct1, THEN mp, OF h])
  then show ?thesis by (simp add: geoJSON_def)
qed

text \<open>Claim C5 as stated fails: the mapping of \<open>ejemplo_sin_cobertura\<close> is not empty, and
  its marker has the fallback colour, which is the colour of none of its classes.\<close>

theorem color_marcador_counterexample:
  "clasificaciones (properties ejemplo_sin_cobertura) \<noteq> []
   \<and> fillColor (marker (geoJSON ejemplo_sin_cobertura)) = ''#3388ff''
   \<and> ''#3388ff'' \<notin> set (map (\<lambda>e. color (snd e)) (clasificaciones (properties ejemplo_sin_cobertura)))"
  by (simp add: ejemplo_sin_cobertura_def geoJSON_def pointToLayer_def o_logico_def)

subsection \<open>Sorting\<close>

lemma mset_insertar: "mset (insertar cmp x xs) = add_mset x (mset xs)"
  by (induction xs) auto

lemma mset_sort_js: "mset (sort_js cmp xs) = mset xs"
  by (induction xs) (auto simp: mset_insertar)

lemma set_sort_js: "set (sort_js cmp xs) = set xs"
  using mset_sort_js [of cmp xs] by (metis set_mset_mset)

lemma length_sort_js: "length (sort_js cmp xs) = length xs"
  using mset_sort_js [of cmp xs] by (metis size_mset)

lemma sorted_insertar:
  assumes "comparador_consistente cmp"
  shows "sorted_wrt (\<lambda>a b. cmp a b \<le> 0) xs \<Longrightarrow> sorted_wrt (\<lambda>a b. cmp a b \<le> 0) (insertar cmp x xs)"
proof (induction xs)
  case Nil
  then show ?case by simp
next
  case (Cons y ys)
  have tot: "\<And>a b. cmp a b \<le> 0 \<or> cmp b a \<le> 0"
    and tr: "\<And>a b c. cmp a b \<le> 0 \<Longrightarrow> cmp b c \<le> 0 \<Longrightarrow> cmp a c \<le> 0"
    using assms unfolding comparador_consistente_def by blast+
  show ?case
  proof (cases "cmp x y \<le> 0")
    case True
    then have "\<forall>z\<in>set ys. cmp x z \<le> 0" using Cons.prems tr by auto
    then show ?thesis using True Cons.prems by simp
  next
    case False
    then have yx: "cmp y x \<le> 0" using tot by blast
    have "set (insertar cmp x ys) = insert x (set ys)"
      using mset_insertar [of cmp x ys] by (metis set_mset_mset set_mset_add_mset_insert)
    then show ?thesis using False yx Cons by simp
  qed
qed

lemma sorted_sort_js:
  "comparador_consistente cmp \<Longrightarrow> sorted_wrt (\<lambda>a b. cmp a b \<le> 0) (sort_js cmp xs)"
  by (induction xs) (auto simp: sorted_insertar)

text \<open>The comparators \<open>(a, b) => b.key - a.key\<close> of the chart and of the maxima panel.\<close>

lemma consistente_clave: "comparador_consistente (\<lambda>a b. clave b - clave a)"
  by (auto simp: comparador_consistente_def)

subsection \<open>The detail chart\<close>

lemma proyectar_simps [simp]:
  "nombre_dato (proyectar e) = fst e" "area (proyectar e) = area_km2 (snd e)"
  "porcentaje_dato (proyectar e) = porcentaje (snd e)" "color_dato (proyectar e) = color (snd e)"
  by (simp_all add: proyectar_def split: prod.splits)

lemma datos_ordenados:
  "sorted_wrt (\<lambda>a b. b \<le> a) (map area (sort_js (\<lambda>a b. area b - area a) xs))"
  using sorted_sort_js [OF consistente_clave [of area], of xs]
  by (simp add: sorted_wrt_map)

lemma datos_de_clase:
  assumes "distinct (map fst clasifs)" and "i < length clasifs"
  shows "\<exists>e. map_of clasifs (fst e) = Some (snd e)
           \<and> sort_js cmp (map proyectar clasifs) ! i = proyectar e"
proof -
  let ?ds = "sort_js cmp (map proyectar clasifs)"
  have "?ds ! i \<in> set ?ds" using assms(2) by (simp add: length_sort_js)
  then have "?ds ! i \<in> proyectar ` set clasifs" by (simp add: set_sort_js)
  then obtain e where e: "e \<in> set clasifs" and eq: "?ds ! i = proyectar e" by blast
  have "map_of clasifs (fst e) = Some (snd e)"
    using e assms(1) by (metis map_of_is_SomeI prod.collapse)
  then show ?thesis using eq by blast
qed

text \<open>
  Claim C3, as the code has it. When the popup's canvas is in the document, the chart that
  \<open>crearGraficoEnPopup\<close> creates has one bar per class of the mapping, the bars are in
  descending order of area where equal areas may follow one another (the comparator
  \<open>b.area - a.area\<close> gives a non-increasing order, not a strict one), and bar \<open>i\<close> carries
  the area, the colour and, in its tooltip, the percentage of the source record of the
  class named by label \<open>i\<close>. The tooltip prints that percentage with one decimal.
\<close>

theorem grafico_por_area:
  assumes "canvasId provinciaNombre \<in> set (canvases s)" and "distinct (map fst clasifs)"
  shows "\<exists>g. chart (crearGraficoEnPopup provinciaNombre clasifs s) = Some g
     \<and> sorted_wrt (\<lambda>a b. b \<le> a) (data g)
     \<and> mset (labels g) = mset (map fst clasifs)
     \<and> (\<forall>i<length clasifs. \<exists>datos. map_of clasifs (labels g ! i) = Some datos
            \<and> data g ! i = area_km2 datos
            \<and> afterLabel g i = Some (porcentaje datos)
            \<and> backgroundColor g ! i = color datos)"
proof -
  let ?ds = "sort_js (\<lambda>a b. area b - area a) (map proyectar clasifs)"
  have len: "length ?ds = length clasifs" by (simp add: length_sort_js)
  have lab: "mset (map nombre_dato ?ds) = mset (map fst clasifs)"
  proof -
    have "mset (map nombre_dato ?ds) = image_mset nombre_dato (mset ?ds)" by simp
    also have "\<dots> = image_mset nombre_dato (mset (map proyectar clasifs))"
      by (simp only: mset_sort_js)
    also have "\<dots> = mset (map fst clasifs)" by (simp add: multiset.map_comp comp_def)
    finally show ?thesis .
  qed
  have each: "\<forall>i<length clasifs. \<exists>datos. map_of clasifs (map nombre_dato ?ds ! i) = Some datos
            \<and> map area ?ds ! i = area_km2 datos
            \<and> porcentaje_dato (?ds ! i) = porcentaje datos
            \<and> map color_dato ?ds ! i = color datos"
  proof (intro allI impI)
    fix i assume i: "i < length clasifs"
    from datos_de_clase [OF assms(2) i, of "\<lambda>a b. area b - area a"]
    obtain e where "map_of clasifs (fst e) = Some (snd e)" "?ds ! i = proyectar e" by blast
    then show "\<exists>datos. map_of clasifs (map nombre_dato ?ds ! i) = Some datos
            \<and> map area ?ds ! i = area_km2 datos
            \<and> porcentaje_dato (?ds ! i) = porcentaje datos
            \<and> map color_dato ?ds ! i = color datos"
      using i len by simp
  qed
  show ?thesis
    using assms(1) datos_ordenados [of "map proyectar clasifs"] lab each len
    by (simp add: crearGraficoEnPopup_def Let_def afterLabel_def)
qed

text \<open>The chart of Buenos Aires, opened on a page that shows its canvas.\<close>

theorem grafico_por_area_witness:
  "canvasId ''Buenos Aires'' \<in> set (canvases (pagina_con_canvas ''chart-Buenos-Aires''))
   \<and> distinct (map fst (clasificaciones (properties ejemplo_buenos_aires)))
   \<and> (\<exists>g. chart (crearGraficoEnPopup ''Buenos Aires'' (clasificaciones (properties ejemplo_buenos_aires))
                  (pagina_con_canvas ''chart-Buenos-Aires'')) = Some g
     \<and> sorted_wrt (\<lambda>a b. b \<le> a) (data g)
     \<and> mset (labels g) = mset (map fst (clasificaciones (properties ejemplo_buenos_aires)))
     \<and> (\<forall>i<length (clasificaciones (properties ejemplo_buenos_aires)).
           \<exists>datos. map_of (clasificaciones (properties ejemplo_buenos_aires)) (labels g ! i) = Some datos
            \<and> data g ! i = area_km2 datos
            \<and> afterLabel g i = Some (porcentaje datos)
            \<and> backgroundColor g ! i = color datos))"
proof -
  have h1: "canvasId ''Buenos Aires'' \<in> set (canvases (pagina_con_canvas ''chart-Buenos-Aires''))"
    by (simp add: canvasId_def espacio_al_inicio_def pagina_con_canvas_def pagina_def)
  have h2: "distinct (map fst (clasificaciones (properties ejemplo_buenos_aires)))"
    by (simp add: ejemplo_buenos_aires_def)
  from grafico_por_area [OF h1 h2] h1 h2 show ?thesis by blast
qed

text \<open>Claim C3 as stated fails: in \<open>ejemplo_chaco\<close> two classes have area 0, and the bars
  500, 0, 0 are not strictly descending.\<close>

theorem grafico_por_area_counterexample:
  "map_option data (chart (crearGraficoEnPopup ''Chaco'' ejemplo_chaco (pagina_con_canvas ''chart-Chaco'')))
     = Some [500, 0, 0]
   \<and> \<not> sorted_wrt (\<lambda>a b. b < a) [500, 0, 0 :: rat]"
  by (simp add: crearGraficoEnPopup_def canvasId_def espacio_al_inicio_def pagina_con_canvas_def pagina_def
      ejemplo_chaco_def Let_def proyectar_def)

subsection \<open>The maxima panel\<close>

lemma fila_de_maximo_simps [simp]:
  "maximo_clase (fila_de_maximo e) = fst e"
  "maximo_provincia (fila_de_maximo e) = provincia_maximo (snd e)"
  "maximo_porcentaje (fila_de_maximo e) = porcentaje_maximo (snd e)"
  "maximo_color (fila_de_maximo e) = color_maximo (snd e)"
  by (simp_all add: fila_de_maximo_def split: prod.splits)

text \<open>
  Claim C6, as the code has it. The maxima panel has one row per class of the maxima
  mapping, each row carries the province, the percentage and the colour of its class, and
  the rows are in descending order of percentage where equal percentages may follow one
  another.
\<close>

theorem panel_maximos:
  assumes "distinct (map fst maximosData)"
  shows "\<exists>filas. maximosItems (crearGraficoMaximos maximosData s) = Some filas
     \<and> sorted_wrt (\<lambda>a b. maximo_porcentaje b \<le> maximo_porcentaje a) filas
     \<and> mset (map maximo_clase filas) = mset (map fst maximosData)
     \<and> (\<forall>fila\<in>set filas. \<exists>datos. map_of maximosData (maximo_clase fila) = Some datos
            \<and> maximo_provincia fila = provincia_maximo datos
            \<and> maximo_porcentaje fila = porcentaje_maximo datos
            \<and> maximo_color fila = color_maximo datos)"
proof -
  let ?cmp = "\<lambda>a b. porcentaje_maximo (snd b) - porcentaje_maximo (snd a) :: rat"
  let ?xs = "sort_js ?cmp maximosData"
  have ord: "sorted_wrt (\<lambda>a b. maximo_porcentaje b \<le> maximo_porcentaje a) (map fila_de_maximo ?xs)"
    using sorted_sort_js [OF consistente_clave [of "\<lambda>e. porcentaje_maximo (snd e)"], of maximosData]
    by (simp add: sorted_wrt_map)
  have cls: "mset (map maximo_clase (map fila_de_maximo ?xs)) = mset (map fst maximosData)"
  proof -
    have "mset (map maximo_clase (map fila_de_maximo ?xs)) = image_mset fst (mset ?xs)"
      by (simp add: comp_def)
    also have "\<dots> = image_mset fst (mset maximosData)" by (simp only: mset_sort_js)
    finally show ?thesis by simp
  qed
  have each: "\<forall>fila\<in>set (map fila_de_maximo ?xs). \<exists>datos. map_of maximosData (maximo_clase fila) = Some datos
            \<and> maximo_provincia fila = provincia_maximo datos
            \<and> maximo_porcentaje fila = porcentaje_maximo datos
            \<and> maximo_color fila = color_maximo datos"
  proof
    fix fila assume "fila \<in> set (map fila_de_maximo ?xs)"
    then obtain e where e: "e \<in> set maximosData" and f: "fila = fila_de_maximo e"
      by (auto simp: set_sort_js)
    have "map_of maximosData (fst e) = Some (snd e)"
      using e assms by (metis map_of_is_SomeI prod.collapse)
    then show "\<exists>datos. map_of maximosData (maximo_clase fila) = Some datos
            \<and> maximo_provincia fila = provincia_maximo datos
            \<and> maximo_porcentaje fila = porcentaje_maximo datos
            \<and> maximo_color fila = color_maximo datos"
      using f by simp
  qed
  have res: "maximosItems (crearGraficoMaximos maximosData s) = Some (map fila_de_maximo ?xs)"
    by (simp add: crearGraficoMaximos_def Let_def)
  show ?thesis by (intro exI [of _ "map fila_de_maximo ?xs"] conjI res ord cls each)
qed

text \<open>The panel of \<open>ejemplo_maximos\<close>.\<close>

theorem panel_maximos_witness:
  "distinct (map fst ejemplo_maximos)
   \<and> (\<exists>filas. maximosItems (crearGraficoMaximos ejemplo_maximos pagina) = Some filas
     \<and> sorted_wrt (\<lambda>a b. maximo_porcentaje b \<le> maximo_porcentaje a) filas
     \<and> mset (map maximo_clase filas) = mset (map fst ejemplo_maximos)
     \<and> (\<forall>fila\<in>set filas. \<exists>datos. map_of ejemplo_maximos (maximo_clase fila) = Some datos
            \<and> maximo_provincia fila = provincia_maximo datos
            \<and> maximo_porcentaje fila = porcentaje_maximo datos
            \<and> maximo_color fila = color_maximo datos))"
proof -
  have h: "distinct (map fst ejemplo_maximos)" by (simp add: ejemplo_maximos_def)
  from panel_maximos [OF h] h show ?thesis by blast
qed

text \<open>Claim C6 as stated fails: in \<open>ejemplo_maximos\<close> two classes have 12 %, and the rows
  80, 12, 12 are not strictly descending.\<close>

theorem panel_maximos_counterexample:
  "map_option (map maximo_porcentaje) (maximosItems (crearGraficoMaximos ejemplo_maximos pagina))
     = Some [80, 12, 12]
   \<and> \<not> sorted_wrt (\<lambda>a b. b < a) [80, 12, 12 :: rat]"
  by (simp add: crearGraficoMaximos_def ejemplo_maximos_def Let_def fila_de_maximo_def pagina_def)

subsection \<open>The legend\<close>

lemma consistente_por_clave:
  "comparador_consistente cmp \<Longrightarrow> comparador_consistente (\<lambda>a b. cmp (f a) (f b))"
  unfolding comparador_consistente_def by blast

text \<open>
  Claim C7. With a collation that is a consistent comparator, the legend has one row per
  class of the catalog: the rows, read as pairs of swatch colour and label, are the
  pairs of colour and display name of the catalog's classes, each as often as it occurs
  there; and the rows are in the order the collation gives to the display names.
\<close>

theorem leyenda_ordenada:
  assumes "comparador_consistente localeCompare" and "clasificaciones_t s = Some cat"
  shows "\<exists>filas. legendItems (crearLeyenda localeCompare s) = Some filas
     \<and> sorted_wrt (\<lambda>a b. localeCompare (legend_nombre a) (legend_nombre b) \<le> 0) filas
     \<and> length filas = length cat
     \<and> mset (map (\<lambda>fila. (legend_color fila, legend_nombre fila)) filas)
         = mset (map (\<lambda>e. (color_catalogo (snd e), nombre (snd e))) cat)
     \<and> mset filas = mset (map fila_de_clase cat)"
proof -
  let ?cmp = "\<lambda>a b. localeCompare (nombre (snd a)) (nombre (snd b))"
  let ?xs = "sort_js ?cmp cat"
  have nom: "\<And>e. legend_nombre (fila_de_clase e) = nombre (snd e)"
    and col: "\<And>e. legend_color (fila_de_clase e) = color_catalogo (snd e)"
    by (simp_all add: fila_de_clase_def split: prod.splits)
  have ord: "sorted_wrt (\<lambda>a b. localeCompare (legend_nombre a) (legend_nombre b) \<le> 0)
               (map fila_de_clase ?xs)"
    using sorted_sort_js [OF consistente_por_clave [OF assms(1), of "\<lambda>e. nombre (snd e)"], of cat]
    by (simp add: sorted_wrt_map nom)
  have len: "length (map fila_de_clase ?xs) = length cat" by (simp add: length_sort_js)
  have par: "mset (map (\<lambda>fila. (legend_color fila, legend_nombre fila)) (map fila_de_clase ?xs))
         = mset (map (\<lambda>e. (color_catalogo (snd e), nombre (snd e))) cat)"
  proof -
    have eq: "map (\<lambda>fila. (legend_color fila, legend_nombre fila)) (map fila_de_clase ?xs)
            = map (\<lambda>e. (color_catalogo (snd e), nombre (snd e))) ?xs"
      by (simp add: nom col)
    have "mset (map (\<lambda>e. (color_catalogo (snd e), nombre (snd e))) ?xs)
            = image_mset (\<lambda>e. (color_catalogo (snd e), nombre (snd e))) (mset ?xs)"
      by (rule mset_map)
    also have "\<dots> = image_mset (\<lambda>e. (color_catalogo (snd e), nombre (snd e))) (mset cat)"
      by (simp only: mset_sort_js)
    also have "\<dots> = mset (map (\<lambda>e. (color_catalogo (snd e), nombre (snd e))) cat)"
      by (rule mset_map [symmetric])
    finally show ?thesis unfolding eq .
  qed
  have per: "mset (map fila_de_clase ?xs) = mset (map fila_de_clase cat)"
    by (simp add: mset_sort_js)
  have res: "legendItems (crearLeyenda localeCompare s) = Some (map fila_de_clase ?xs)"
    using assms(2) by (simp add: crearLeyenda_def Let_def)
  show ?thesis by (intro exI [of _ "map fila_de_clase ?xs"] conjI res ord len par per)
qed

lemma orden_binario_consistente: "comparador_consistente orden_binario"
  by (auto simp: comparador_consistente_def orden_binario_def split: if_splits)

text \<open>The legend of \<open>ejemplo_catalogo\<close> under the order of the character codes: Matorrales,
  the last class of the catalog, moves before Pastizales.\<close>

theorem leyenda_ordenada_witness:
  "comparador_consistente orden_binario
   \<and> clasificaciones_t (pagina\<lparr>clasificaciones_t := Some ejemplo_catalogo\<rparr>) = Some ejemplo_catalogo
   \<and> legendItems (crearLeyenda orden_binario (pagina\<lparr>clasificaciones_t := Some ejemplo_catalogo\<rparr>))
       = Some [\<lparr>legend_color = ''#419bdf'', legend_nombre = ''Agua''\<rparr>,
               \<lparr>legend_color = ''#397d49'', legend_nombre = ''Bosque''\<rparr>,
               \<lparr>legend_color = ''#88b053'', legend_nombre = ''Matorrales''\<rparr>,
               \<lparr>legend_color = ''#7a87c6'', legend_nombre = ''Pastizales''\<rparr>]
   \<and> (\<exists>filas. legendItems (crearLeyenda orden_binario (pagina\<lparr>clasificaciones_t := Some ejemplo_catalogo\<rparr>))
                 = Some filas
     \<and> sorted_wrt (\<lambda>a b. orden_binario (legend_nombre a) (legend_nombre b) \<le> 0) filas
     \<and> length filas = length ejemplo_catalogo
     \<and> mset (map (\<lambda>fila. (legend_color fila, legend_nombre fila)) filas)
         = mset (map (\<lambda>e. (color_catalogo (snd e), nombre (snd e))) ejemplo_catalogo)
     \<and> mset filas = mset (map fila_de_clase ejemplo_catalogo))"
proof -
  have h: "clasificaciones_t (pagina\<lparr>clasificaciones_t := Some ejemplo_catalogo\<rparr>) = Some ejemplo_catalogo"
    by simp
  have v: "legendItems (crearLeyenda orden_binario (pagina\<lparr>clasificaciones_t := Some ejemplo_catalogo\<rparr>))
       = Some [\<lparr>legend_color = ''#419bdf'', legend_nombre = ''Agua''\<rparr>,
               \<lparr>legend_color = ''#397d49'', legend_nombre = ''Bosque''\<rparr>,
               \<lparr>legend_color = ''#88b053'', legend_nombre = ''Matorrales''\<rparr>,
               \<lparr>legend_color = ''#7a87c6'', legend_nombre = ''Pastizales''\<rparr>]"
    by (simp add: crearLeyenda_def ejemplo_catalogo_def orden_binario_def fila_de_clase_def Let_def)
  from leyenda_ordenada [OF orden_binario_consistente h] orden_binario_consistente h v
  show ?thesis by blast
qed

subsection \<open>Loading and initialisation\<close>

lemmas init_defs =
  MapaProvincias_def init_def cargarDatos_def relanzar_def anotar_def crearGraficoMaximos_def
  crearLeyenda_def inicializarMapa_def agregarMarcadoresProvincias_def pagina_def Let_def

lemma urls_distintas: "urlDatos \<noteq> urlMaximos"
  by (simp add: urlDatos_def urlMaximos_def)

lemma mensajes_distintos:
  "mensaje_cargando \<noteq> mensaje_inicializando" "mensaje_cargando \<noteq> mensaje_verifica"
  "mensaje_inicializando \<noteq> mensaje_verifica"
  by (simp_all add: mensaje_cargando_def mensaje_inicializando_def mensaje_verifica_def)

text \<open>The trace of initialisation, case by case.\<close>

lemma traza_init:
  "traza (MapaProvincias lc r) =
     (case primario r of
        Rechazada \<Rightarrow>
          [FetchEmitido urlDatos, ConsoleError mensaje_cargando, ConsoleError mensaje_inicializando]
      | NoEsJSON \<Rightarrow>
          [FetchEmitido urlDatos, FetchResuelto urlDatos, ConsoleError mensaje_cargando,
           ConsoleError mensaje_inicializando]
      | Cuerpo d \<Rightarrow>
          [FetchEmitido urlDatos, FetchResuelto urlDatos, FetchEmitido urlMaximos] @
          (case secundario r of
             Rechazada \<Rightarrow> [ConsoleError mensaje_cargando, ConsoleError mensaje_inicializando]
           | NoEsJSON \<Rightarrow>
               [FetchResuelto urlMaximos, ConsoleError mensaje_cargando,
                ConsoleError mensaje_inicializando]
           | Cuerpo m \<Rightarrow>
               [FetchResuelto urlMaximos, ConsoleLog ''Datos cargados exitosamente''] @
               (if provincias d \<noteq> None \<and> clasificaciones_doc d \<noteq> None then []
                else [ConsoleError mensaje_verifica])))"
  by (simp add: init_defs split: respuesta.splits option.splits)

lemma init_sin_graficos:
  "chart (MapaProvincias lc r) = None \<and> instancias (MapaProvincias lc r) = []"
  by (simp add: init_defs split: respuesta.splits option.splits)

lemma init_datos:
  "datosProvincias (MapaProvincias lc r) = (case primario r of Cuerpo d \<Rightarrow> provincias d | _ \<Rightarrow> None)
   \<and> clasificaciones_t (MapaProvincias lc r)
       = (case primario r of Cuerpo d \<Rightarrow> clasificaciones_doc d | _ \<Rightarrow> None)"
  by (simp add: init_defs split: respuesta.splits option.splits)

lemma init_fallo:
  assumes "primario r = Rechazada \<or> primario r = NoEsJSON
           \<or> secundario r = Rechazada \<or> secundario r = NoEsJSON"
  shows "map_t (MapaProvincias lc r) = None \<and> provinciasLayer (MapaProvincias lc r) = None
         \<and> legendItems (MapaProvincias lc r) = None \<and> maximosItems (MapaProvincias lc r) = None"
  using assms by (auto simp: init_defs split: respuesta.splits option.splits)

text \<open>
  Claim C2. When the fetch or the parse of the primary document fails, or the primary
  document loads and the fetch or the parse of the maxima document fails, initialisation
  renders nothing: no map, no markers, no legend, no maxima panel, no chart. Both
  \<open>catch\<close> blocks log an error, and no address is fetched more than once.
\<close>

theorem fallo_de_carga:
  assumes "primario r = Rechazada \<or> primario r = NoEsJSON
           \<or> secundario r = Rechazada \<or> secundario r = NoEsJSON"
  shows "map_t (MapaProvincias lc r) = None
     \<and> provinciasLayer (MapaProvincias lc r) = None
     \<and> legendItems (MapaProvincias lc r) = None
     \<and> maximosItems (MapaProvincias lc r) = None
     \<and> chart (MapaProvincias lc r) = None
     \<and> ConsoleError mensaje_cargando \<in> set (traza (MapaProvincias lc r))
     \<and> ConsoleError mensaje_inicializando \<in> set (traza (MapaProvincias lc r))
     \<and> count_list (traza (MapaProvincias lc r)) (FetchEmitido u) \<le> 1"
proof -
  have log: "ConsoleError mensaje_cargando \<in> set (traza (MapaProvincias lc r))
     \<and> ConsoleError mensaje_inicializando \<in> set (traza (MapaProvincias lc r))"
    using assms by (auto simp: traza_init split: respuesta.splits)
  have una: "count_list (traza (MapaProvincias lc r)) (FetchEmitido u) \<le> 1"
    using urls_distintas by (auto simp: traza_init split: respuesta.splits)
  show ?thesis using init_fallo [OF assms, of lc] init_sin_graficos [of lc r] log una by simp
qed

text \<open>The scenario of the specification: the fetch of the primary document is rejected.\<close>

theorem fallo_de_carga_witness:
  "primario ejemplo_red_caida = Rechazada
   \<and> map_t (MapaProvincias orden_binario ejemplo_red_caida) = None
   \<and> provinciasLayer (MapaProvincias orden_binario ejemplo_red_caida) = None
   \<and> legendItems (MapaProvincias orden_binario ejemplo_red_caida) = None
   \<and> maximosItems (MapaProvincias orden_binario ejemplo_red_caida) = None
   \<and> chart (MapaProvincias orden_binario ejemplo_red_caida) = None
   \<and> ConsoleError mensaje_cargando \<in> set (traza (MapaProvincias orden_binario ejemplo_red_caida))
   \<and> ConsoleError mensaje_inicializando \<in> set (traza (MapaProvincias orden_binario ejemplo_red_caida))
   \<and> count_list (traza (MapaProvincias orden_binario ejemplo_red_caida)) (FetchEmitido urlDatos) \<le> 1"
proof -
  have h: "primario ejemplo_red_caida = Rechazada" by (simp add: ejemplo_red_caida_def)
  then have h': "primario ejemplo_red_caida = Rechazada \<or> primario ejemplo_red_caida = NoEsJSON
           \<or> secundario ejemplo_red_caida = Rechazada \<or> secundario ejemplo_red_caida = NoEsJSON"
    by simp
  from fallo_de_carga [OF h', of orden_binario urlDatos] h show ?thesis by blast
qed

text \<open>
  Claim C9. In the trace of initialisation the fetch of the maxima document, when it is
  issued at all, comes after the fetch of the primary document has resolved, and it is
  issued at most once; the fetch events as a whole are an initial part of: primary issued,
  primary resolved, maxima issued, maxima resolved.
\<close>

theorem fetch_secuencial:
  "(FetchEmitido urlMaximos \<in> set (traza (MapaProvincias lc r))
      \<longrightarrow> FetchResuelto urlDatos
            \<in> set (takeWhile (\<lambda>e. e \<noteq> FetchEmitido urlMaximos) (traza (MapaProvincias lc r))))
   \<and> count_list (traza (MapaProvincias lc r)) (FetchEmitido urlMaximos) \<le> 1
   \<and> prefix (filter es_fetch (traza (MapaProvincias lc r)))
        [FetchEmitido urlDatos, FetchResuelto urlDatos, FetchEmitido urlMaximos,
         FetchResuelto urlMaximos]"
  using urls_distintas
  by (auto simp: traza_init es_fetch_def split: respuesta.splits)

text \<open>A network that serves both documents.\<close>

theorem fetch_secuencial_witness:
  "FetchEmitido urlMaximos \<in> set (traza (MapaProvincias orden_binario ejemplo_red))
   \<and> FetchResuelto urlDatos
        \<in> set (takeWhile (\<lambda>e. e \<noteq> FetchEmitido urlMaximos)
                 (traza (MapaProvincias orden_binario ejemplo_red)))"
proof -
  have h: "FetchEmitido urlMaximos \<in> set (traza (MapaProvincias orden_binario ejemplo_red))"
    by (simp add: traza_init ejemplo_red_def)
  from fetch_secuencial [of orden_binario ejemplo_red, THEN conjunct1, THEN mp, OF h] h
  show ?thesis by blast
qed

text \<open>
  Claim C10, as the code has it. When the primary document parses and lacks
  \<open>provincias\<close> or \<open>clasificaciones\<close>, the maxima document is still fetched, the map
  and the legend are not rendered, and an error is logged; provided the maxima document
  loads as well, the maxima panel is rendered as \<open>crearGraficoMaximos\<close> renders it, and
  the error logged is the one of the \<open>else\<close> branch of \<open>init\<close>, not the one of its
  \<open>catch\<close>.
\<close>

theorem campo_faltante:
  assumes "primario r = Cuerpo d" and "provincias d = None \<or> clasificaciones_doc d = None"
  shows "FetchEmitido urlMaximos \<in> set (traza (MapaProvincias lc r))
     \<and> map_t (MapaProvincias lc r) = None
     \<and> provinciasLayer (MapaProvincias lc r) = None
     \<and> legendItems (MapaProvincias lc r) = None
     \<and> (\<exists>msg. ConsoleError msg \<in> set (traza (MapaProvincias lc r)))
     \<and> (\<forall>m. secundario r = Cuerpo m \<longrightarrow>
           maximosItems (MapaProvincias lc r) = maximosItems (crearGraficoMaximos m pagina)
         \<and> maximosItems (MapaProvincias lc r) \<noteq> None
         \<and> ConsoleError mensaje_verifica \<in> set (traza (MapaProvincias lc r))
         \<and> ConsoleError mensaje_inicializando \<notin> set (traza (MapaProvincias lc r)))"
proof -
  have t: "FetchEmitido urlMaximos \<in> set (traza (MapaProvincias lc r))
     \<and> (\<exists>msg. ConsoleError msg \<in> set (traza (MapaProvincias lc r)))
     \<and> (\<forall>m. secundario r = Cuerpo m \<longrightarrow>
           ConsoleError mensaje_verifica \<in> set (traza (MapaProvincias lc r))
         \<and> ConsoleError mensaje_inicializando \<notin> set (traza (MapaProvincias lc r)))"
    using assms mensajes_distintos by (cases "secundario r") (auto simp: traza_init)
  have f: "map_t (MapaProvincias lc r) = None
     \<and> provinciasLayer (MapaProvincias lc r) = None
     \<and> legendItems (MapaProvincias lc r) = None
     \<and> (\<forall>m. secundario r = Cuerpo m \<longrightarrow>
           maximosItems (MapaProvincias lc r) = maximosItems (crearGraficoMaximos m pagina)
         \<and> maximosItems (MapaProvincias lc r) \<noteq> None)"
    using assms by (cases "secundario r") (auto simp: init_defs)
  show ?thesis using t f by blast
qed


text \<open>A primary document without \<open>provincias\<close>, with a maxima document that loads.\<close>

theorem campo_faltante_witness:
  "primario ejemplo_red_sin_provincias
     = Cuerpo \<lparr>provincias = None, clasificaciones_doc = Some ejemplo_catalogo\<rparr>
   \<and> secundario ejemplo_red_sin_provincias = Cuerpo ejemplo_maximos
   \<and> FetchEmitido urlMaximos \<in> set (traza (MapaProvincias orden_binario ejemplo_red_sin_provincias))
   \<and> map_t (MapaProvincias orden_binario ejemplo_red_sin_provincias) = None
   \<and> legendItems (MapaProvincias orden_binario ejemplo_red_sin_provincias) = None
   \<and> maximosItems (MapaProvincias orden_binario ejemplo_red_sin_provincias) \<noteq> None
   \<and> ConsoleError mensaje_verifica
        \<in> set (traza (MapaProvincias orden_binario ejemplo_red_sin_provincias))"
proof -
  let ?d = "\<lparr>provincias = None, clasificaciones_doc = Some ejemplo_catalogo\<rparr>"
  have h1: "primario ejemplo_red_sin_provincias = Cuerpo ?d"
    by (simp add: ejemplo_red_sin_provincias_def)
  have h2: "provincias ?d = None \<or> clasificaciones_doc ?d = None" by simp
  have h3: "secundario ejemplo_red_sin_provincias = Cuerpo ejemplo_maximos"
    by (simp add: ejemplo_red_sin_provincias_def)
  from campo_faltante [OF h1 h2, of orden_binario] h1 h3 show ?thesis by blast
qed

text \<open>Claim C10 as stated fails: when the primary document lacks \<open>provincias\<close> and the
  fetch of the maxima document is rejected, the maxima panel is not rendered either.\<close>

theorem campo_faltante_counterexample:
  "primario ejemplo_red_sin_provincias_caida
     = Cuerpo \<lparr>provincias = None, clasificaciones_doc = Some ejemplo_catalogo\<rparr>
   \<and> FetchEmitido urlMaximos
        \<in> set (traza (MapaProvincias orden_binario ejemplo_red_sin_provincias_caida))
   \<and> maximosItems (MapaProvincias orden_binario ejemplo_red_sin_provincias_caida) = None"
  by (simp add: ejemplo_red_sin_provincias_caida_def init_defs)

subsection \<open>One live chart\<close>

lemma sesion_snoc: "sesion lc r (evs @ [ev]) = popupopen ev (sesion lc r evs)"
  by (simp add: sesion_def)

text \<open>The invariant: the live instances are exactly the chart held in \<open>this.chart\<close>, and
  its identifier is below the next one.\<close>

lemma popupopen_invariante:
  assumes "instancias s = (case chart s of None \<Rightarrow> [] | Some g \<Rightarrow> [g])"
    and "\<forall>g. chart s = Some g \<longrightarrow> ident g < siguienteId s"
  shows "instancias (popupopen ev s) = (case chart (popupopen ev s) of None \<Rightarrow> [] | Some g \<Rightarrow> [g])
     \<and> (\<forall>g. chart (popupopen ev s) = Some g \<longrightarrow> ident g < siguienteId (popupopen ev s))"
  using assms
  by (auto simp: popupopen_def crearGraficoEnPopup_def destroy_def Let_def split: option.splits)

lemma sesion_invariante:
  "instancias (sesion lc r evs) = (case chart (sesion lc r evs) of None \<Rightarrow> [] | Some g \<Rightarrow> [g])
   \<and> (\<forall>g. chart (sesion lc r evs) = Some g \<longrightarrow> ident g < siguienteId (sesion lc r evs))"
proof (induction evs rule: rev_induct)
  case Nil
  then show ?case using init_sin_graficos [of lc r] by (simp add: sesion_def)
next
  case (snoc ev evs)
  then show ?case using popupopen_invariante [of "sesion lc r evs" ev]
    by (simp only: sesion_snoc) blast
qed

lemma popupopen_conserva_chart: "chart s \<noteq> None \<Longrightarrow> chart (popupopen ev s) \<noteq> None"
  by (auto simp: popupopen_def crearGraficoEnPopup_def destroy_def Let_def split: option.splits)

lemma popupopen_crea_chart:
  "canvasId (capa_provincia (snd ev)) \<in> set (fst ev) \<Longrightarrow> chart (popupopen ev s) \<noteq> None"
  by (simp add: popupopen_def crearGraficoEnPopup_def Let_def)

lemma sesion_con_chart:
  "\<exists>ev\<in>set evs. canvasId (capa_provincia (snd ev)) \<in> set (fst ev)
     \<Longrightarrow> chart (sesion lc r evs) \<noteq> None"
proof (induction evs rule: rev_induct)
  case Nil
  then show ?case by simp
next
  case (snoc ev evs)
  show ?case
  proof (cases "canvasId (capa_provincia (snd ev)) \<in> set (fst ev)")
    case True
    then show ?thesis by (simp only: sesion_snoc popupopen_crea_chart not_False_eq_True)
  next
    case False
    with snoc.prems have "\<exists>ev\<in>set evs. canvasId (capa_provincia (snd ev)) \<in> set (fst ev)"
      by auto
    then have "chart (sesion lc r evs) \<noteq> None" by (rule snoc.IH)
    then show ?thesis by (simp only: sesion_snoc popupopen_conserva_chart not_False_eq_True)
  qed
qed

lemma popupopen_reemplaza:
  assumes "instancias s = [g]" and "chart s = Some g" and "ident g < siguienteId s"
    and "canvasId (capa_provincia (snd ev)) \<in> set (fst ev)"
  shows "traza (popupopen ev s) = traza s @ [ChartDestroy (ident g), ChartNew (siguienteId s)]
     \<and> (\<exists>g'. chart (popupopen ev s) = Some g' \<and> ident g' = siguienteId s
            \<and> ident g' \<noteq> ident g \<and> instancias (popupopen ev s) = [g'])"
  using assms by (simp add: popupopen_def crearGraficoEnPopup_def destroy_def Let_def)

text \<open>
  Claim C4. After the page has loaded and any sequence of popups has been opened, with
  or without their canvas in the document, at most one chart instance is live, and it
  is the one held in \<open>this.chart\<close>; once some popup has found its canvas exactly one is
  live. Opening a further popup that finds its canvas while a chart is held first
  destroys that chart and then creates the next one, which is then the only live instance.
\<close>

theorem un_grafico_vivo:
  "length (instancias (sesion lc r evs)) \<le> 1
   \<and> instancias (sesion lc r evs)
       = (case chart (sesion lc r evs) of None \<Rightarrow> [] | Some g \<Rightarrow> [g])
   \<and> ((\<exists>ev\<in>set evs. canvasId (capa_provincia (snd ev)) \<in> set (fst ev))
        \<longrightarrow> length (instancias (sesion lc r evs)) = 1)
   \<and> (\<forall>g. chart (sesion lc r evs) = Some g \<and> canvasId (capa_provincia (snd ev)) \<in> set (fst ev)
        \<longrightarrow> traza (sesion lc r (evs @ [ev]))
              = traza (sesion lc r evs)
                @ [ChartDestroy (ident g), ChartNew (siguienteId (sesion lc r evs))]
          \<and> (\<exists>g'. chart (sesion lc r (evs @ [ev])) = Some g'
                \<and> ident g' = siguienteId (sesion lc r evs)
                \<and> ident g' \<noteq> ident g
                \<and> instancias (sesion lc r (evs @ [ev])) = [g']))"
proof -
  let ?s = "sesion lc r evs"
  note inv = sesion_invariante [of lc r evs]
  have a: "length (instancias ?s) \<le> 1" using inv by (simp split: option.splits)
  have b: "(\<exists>ev\<in>set evs. canvasId (capa_provincia (snd ev)) \<in> set (fst ev))
        \<longrightarrow> length (instancias ?s) = 1"
    using inv sesion_con_chart [of evs lc r] by (auto split: option.splits)
  have c: "\<forall>g. chart ?s = Some g \<and> canvasId (capa_provincia (snd ev)) \<in> set (fst ev)
        \<longrightarrow> traza (sesion lc r (evs @ [ev]))
              = traza ?s @ [ChartDestroy (ident g), ChartNew (siguienteId ?s)]
          \<and> (\<exists>g'. chart (sesion lc r (evs @ [ev])) = Some g'
                \<and> ident g' = siguienteId ?s
                \<and> ident g' \<noteq> ident g
                \<and> instancias (sesion lc r (evs @ [ev])) = [g'])"
  proof (intro allI impI)
    fix g assume g: "chart ?s = Some g \<and> canvasId (capa_provincia (snd ev)) \<in> set (fst ev)"
    then have "instancias ?s = [g]" and "ident g < siguienteId ?s" using inv by simp_all
    from popupopen_reemplaza [OF this(1) _ this(2), of ev] g
    show "traza (sesion lc r (evs @ [ev]))
              = traza ?s @ [ChartDestroy (ident g), ChartNew (siguienteId ?s)]
          \<and> (\<exists>g'. chart (sesion lc r (evs @ [ev])) = Some g'
                \<and> ident g' = siguienteId ?s
                \<and> ident g' \<noteq> ident g
                \<and> instancias (sesion lc r (evs @ [ev])) = [g'])"
      by (simp only: sesion_snoc)
  qed
  show ?thesis using a b c inv by blast
qed

text \<open>The details of Buenos Aires and then of La Pampa are opened.\<close>

theorem un_grafico_vivo_witness:
  "(\<exists>ev\<in>set ejemplo_aperturas. canvasId (capa_provincia (snd ev)) \<in> set (fst ev))
   \<and> length (instancias (sesion orden_binario ejemplo_red ejemplo_aperturas)) = 1"
proof -
  have h: "\<exists>ev\<in>set ejemplo_aperturas. canvasId (capa_provincia (snd ev)) \<in> set (fst ev)"
    by (simp add: ejemplo_aperturas_def geoJSON_def ejemplo_buenos_aires_def canvasId_def
        espacio_al_inicio_def)
  from un_grafico_vivo [of orden_binario ejemplo_red ejemplo_aperturas, THEN conjunct2,
      THEN conjunct2, THEN conjunct1, THEN mp, OF h] h
  show ?thesis by blast
qed

subsection \<open>The fields that hold the loaded data\<close>

lemma popupopen_datos:
  "datosProvincias (popupopen ev s) = datosProvincias s
   \<and> clasificaciones_t (popupopen ev s) = clasificaciones_t s"
  by (simp add: popupopen_def crearGraficoEnPopup_def destroy_def Let_def split: option.splits)

lemma sesion_datos:
  "datosProvincias (sesion lc r evs) = datosProvincias (MapaProvincias lc r)
   \<and> clasificaciones_t (sesion lc r evs) = clasificaciones_t (MapaProvincias lc r)"
proof (induction evs rule: rev_induct)
  case Nil
  then show ?case by (simp add: sesion_def)
next
  case (snoc ev evs)
  then show ?case by (simp only: sesion_snoc popupopen_datos)
qed

subsection \<open>The store is only extended\<close>

lemma prefix_nth: "prefix xs ys \<Longrightarrow> i < length xs \<Longrightarrow> ys ! i = xs ! i"
  by (auto simp: prefix_def nth_append)

lemma alojar_prefix: "prefix h0 h \<Longrightarrow> prefix h0 (snd (alojar c h))"
  by (simp add: alojar_def)

lemma alojar_todos_prefix: "prefix h0 h \<Longrightarrow> prefix h0 (snd (alojar_todos cs h))"
  by (simp add: alojar_todos_def)

lemma object_entries_prefix: "prefix h0 h \<Longrightarrow> prefix h0 (snd (object_entries v h))"
  by (simp add: object_entries_def Let_def case_prod_beta alojar_prefix alojar_todos_prefix)

lemma map_objetos_prefix: "prefix h0 h \<Longrightarrow> prefix h0 (snd (map_objetos f v h))"
  by (simp add: map_objetos_def Let_def case_prod_beta alojar_prefix alojar_todos_prefix)

lemma map_valores_prefix: "prefix h0 h \<Longrightarrow> prefix h0 (snd (map_valores f v h))"
  by (simp add: map_valores_def alojar_prefix)

lemma object_entries_fresco:
  "fst (object_entries v h) = Ref (length h + length (entradas h v))"
  by (simp add: object_entries_def alojar_def alojar_todos_def Let_def)

lemma map_objetos_fresco:
  "fst (map_objetos f v h) = Ref (length h + length (elementos h v))"
  by (simp add: map_objetos_def alojar_def alojar_todos_def Let_def)

text \<open>Sorting in place an array that lies outside \<open>h0\<close> leaves \<open>h0\<close> as it is.\<close>

lemma sort_en_sitio_prefix:
  assumes "prefix h0 h" and "length h0 \<le> a"
  shows "prefix h0 (sort_en_sitio cmp (Ref a) h)"
proof -
  from assms(1) obtain zs where h: "h = h0 @ zs" by (auto simp: prefix_def)
  have "prefix h0 (h[a := c])" for c
    using assms(2) by (simp add: h list_update_append)
  then show ?thesis using assms(1) by (simp add: sort_en_sitio_def split: celda.splits)
qed

lemma sort_entradas_prefix:
  assumes "prefix h0 h"
  shows "prefix h0 (sort_en_sitio cmp (fst (object_entries v h)) (snd (object_entries v h)))"
proof -
  have "length h0 \<le> length h + length (entradas h v)"
    using assms by (simp add: prefix_length_le trans_le_add1)
  then show ?thesis
    unfolding object_entries_fresco
    by (intro sort_en_sitio_prefix object_entries_prefix assms)
qed

lemma sort_objetos_prefix:
  assumes "prefix h0 h"
  shows "prefix h0 (sort_en_sitio cmp (fst (map_objetos f v h)) (snd (map_objetos f v h)))"
proof -
  have "length h0 \<le> length h + length (elementos h v)"
    using assms by (simp add: prefix_length_le trans_le_add1)
  then show ?thesis
    unfolding map_objetos_fresco
    by (intro sort_en_sitio_prefix map_objetos_prefix assms)
qed

lemma crearGraficoMaximos_m_prefix:
  "prefix h0 h \<Longrightarrow> prefix h0 (snd (crearGraficoMaximos_m v h))"
  by (simp add: crearGraficoMaximos_m_def Let_def case_prod_beta sort_entradas_prefix)

lemma crearLeyenda_m_prefix: "prefix h0 h \<Longrightarrow> prefix h0 (snd (crearLeyenda_m lc v h))"
  by (simp add: crearLeyenda_m_def Let_def case_prod_beta sort_entradas_prefix)

lemma pointToLayer_m_prefix: "prefix h0 h \<Longrightarrow> prefix h0 (snd (pointToLayer_m f h))"
  by (simp add: pointToLayer_m_def Let_def case_prod_beta object_entries_prefix)

lemma onEachFeature_m_prefix: "prefix h0 h \<Longrightarrow> prefix h0 (snd (onEachFeature_m f h))"
  by (simp add: onEachFeature_m_def Let_def case_prod_beta object_entries_prefix)

lemma marcadores_m_prefix: "prefix h0 h \<Longrightarrow> prefix h0 (snd (marcadores_m fs h))"
  by (induction fs arbitrary: h)
     (simp_all add: Let_def case_prod_beta pointToLayer_m_prefix onEachFeature_m_prefix)

lemma agregarMarcadoresProvincias_m_prefix:
  "prefix h0 h \<Longrightarrow> prefix h0 (snd (agregarMarcadoresProvincias_m v h))"
  by (simp add: agregarMarcadoresProvincias_m_def marcadores_m_prefix)

lemma datos_m_prefix: "prefix h0 h \<Longrightarrow> prefix h0 (snd (datos_m v h))"
  by (simp add: datos_m_def Let_def case_prod_beta sort_objetos_prefix object_entries_prefix)

lemma columnas_m_prefix: "prefix h0 h \<Longrightarrow> prefix h0 (snd (columnas_m v h))"
  by (simp add: columnas_m_def Let_def case_prod_beta map_valores_prefix)

lemma crearGraficoEnPopup_m_prefix:
  "prefix h0 h \<Longrightarrow> prefix h0 (snd (crearGraficoEnPopup_m v h))"
  by (simp add: crearGraficoEnPopup_m_def Let_def case_prod_beta columnas_m_prefix datos_m_prefix)

lemma ejecutar_prefix: "prefix h0 h \<Longrightarrow> prefix h0 (ejecutar lc op h)"
  by (cases op)
     (simp_all add: ejecutar_def agregarMarcadoresProvincias_m_prefix crearGraficoEnPopup_m_prefix
        crearGraficoMaximos_m_prefix crearLeyenda_m_prefix)

lemma fold_ejecutar_prefix: "prefix h0 h \<Longrightarrow> prefix h0 (fold (ejecutar lc) ops h)"
  by (induction ops arbitrary: h) (simp_all add: ejecutar_prefix)

subsection \<open>Reading back what was parsed\<close>

lemma entradas_Ref: "a < length h \<Longrightarrow> h ! a = Objeto ps \<Longrightarrow> entradas h (Ref a) = ps"
  by (simp add: entradas_def)

lemma elementos_Ref: "a < length h \<Longrightarrow> h ! a = Arreglo xs \<Longrightarrow> elementos h (Ref a) = xs"
  by (simp add: elementos_def)

lemma parse_mapa_eq:
  "parse_mapa celda_de xs h =
     (Ref (length h + length xs),
      h @ map (\<lambda>e. celda_de (snd e)) xs
        @ [Objeto (zip (map fst xs) (map Ref [length h ..< length h + length xs]))])"
  by (simp add: parse_mapa_def alojar_todos_def alojar_def)

lemma parse_mapa_prefix: "prefix h0 h \<Longrightarrow> prefix h0 (snd (parse_mapa celda_de xs h))"
  by (simp add: parse_mapa_eq)

text \<open>A mapping read back from any store that extends the one it was parsed into.\<close>

lemma parse_mapa_leer:
  assumes lee: "\<And>h' a x. a < length h' \<Longrightarrow> h' ! a = celda_de x \<Longrightarrow> leer h' (Ref a) = x"
    and pre: "prefix (snd (parse_mapa celda_de xs h)) h'"
  shows "leer_mapa leer h' (fst (parse_mapa celda_de xs h)) = xs"
proof -
  let ?L = "length h" and ?n = "length xs"
  let ?hp = "h @ map (\<lambda>e. celda_de (snd e)) xs
        @ [Objeto (zip (map fst xs) (map Ref [?L ..< ?L + ?n]))]"
  from pre have pre': "prefix ?hp h'" by (simp add: parse_mapa_eq)
  then have len: "?L + ?n < length h'"
    using prefix_length_le [OF pre'] by simp
  have root: "h' ! (?L + ?n) = Objeto (zip (map fst xs) (map Ref [?L ..< ?L + ?n]))"
    using prefix_nth [OF pre', of "?L + ?n"] by (simp add: nth_append)
  have cell: "h' ! (?L + i) = celda_de (snd (xs ! i))" if "i < ?n" for i
    using prefix_nth [OF pre', of "?L + i"] that by (simp add: nth_append)
  have ent: "entradas h' (Ref (?L + ?n)) = zip (map fst xs) (map Ref [?L ..< ?L + ?n])"
    using len root by (rule entradas_Ref)
  have "map (\<lambda>e. (fst e, leer h' (snd e))) (zip (map fst xs) (map Ref [?L ..< ?L + ?n])) = xs"
  proof (rule nth_equalityI)
    show "length (map (\<lambda>e. (fst e, leer h' (snd e))) (zip (map fst xs) (map Ref [?L ..< ?L + ?n])))
            = length xs" by simp
  next
    fix i assume "i < length (map (\<lambda>e. (fst e, leer h' (snd e)))
                       (zip (map fst xs) (map Ref [?L ..< ?L + ?n])))"
    then have i: "i < ?n" by simp
    then have "leer h' (Ref (?L + i)) = snd (xs ! i)"
      using lee [of "?L + i" h' "snd (xs ! i)"] cell [OF i] len by simp
    then show "map (\<lambda>e. (fst e, leer h' (snd e))) (zip (map fst xs) (map Ref [?L ..< ?L + ?n])) ! i
                 = xs ! i"
      using i by simp
  qed
  then show ?thesis by (simp add: leer_mapa_def parse_mapa_eq ent)
qed

lemma leer_clase_celda:
  "a < length h' \<Longrightarrow> h' ! a = celda_clase x \<Longrightarrow> leer_clase h' (Ref a) = x"
  by (simp add: leer_clase_def propiedad_def entradas_def celda_clase_def numero_def cadena_def)

lemma leer_catalogo_celda:
  "a < length h' \<Longrightarrow> h' ! a = celda_catalogo x \<Longrightarrow> leer_catalogo h' (Ref a) = x"
  by (simp add: leer_catalogo_def propiedad_def entradas_def celda_catalogo_def cadena_def)

lemma leer_maximo_celda:
  "a < length h' \<Longrightarrow> h' ! a = celda_maximo x \<Longrightarrow> leer_maximo h' (Ref a) = x"
  by (simp add: leer_maximo_def propiedad_def entradas_def celda_maximo_def numero_def cadena_def)

lemma parse_feature_eq:
  "parse_feature f h =
     (let h1 = snd (parse_mapa celda_clase (clasificaciones (properties f)) h);
          L = length h1
      in (Ref (L + 3),
          h1 @ [Objeto [(''provincia'', Str (provincia (properties f))),
                        (''area_total_km2'', Num (area_total_km2 (properties f))),
                        (''total_pixels'', Num (total_pixels (properties f))),
                        (''clasificaciones'', fst (parse_mapa celda_clase (clasificaciones (properties f)) h))],
                Arreglo [Num (fst (coordinates f)), Num (snd (coordinates f))],
                Objeto [(''type'', Str ''Point''), (''coordinates'', Ref (L + 1))],
                Objeto [(''type'', Str ''Feature''), (''properties'', Ref L),
                        (''geometry'', Ref (L + 2))]]))"
  by (simp add: parse_feature_def alojar_def Let_def case_prod_beta)

lemma parse_feature_prefix: "prefix h0 h \<Longrightarrow> prefix h0 (snd (parse_feature f h))"
  by (simp add: parse_feature_eq Let_def parse_mapa_prefix)

lemma parse_feature_leer:
  assumes pre: "prefix (snd (parse_feature f h)) h'"
  shows "leer_feature h' (fst (parse_feature f h)) = f"
proof -
  let ?cs = "clasificaciones (properties f)"
  let ?h1 = "snd (parse_mapa celda_clase ?cs h)"
  let ?rc = "fst (parse_mapa celda_clase ?cs h)"
  define ap where "ap = length ?h1"
  define ax where "ax = length ?h1 + 1"
  define ag where "ag = length ?h1 + 2"
  define af where "af = length ?h1 + 3"
  let ?props = "Objeto [(''provincia'', Str (provincia (properties f))),
                        (''area_total_km2'', Num (area_total_km2 (properties f))),
                        (''total_pixels'', Num (total_pixels (properties f))),
                        (''clasificaciones'', ?rc)]"
  let ?coords = "Arreglo [Num (fst (coordinates f)), Num (snd (coordinates f))]"
  let ?geom = "Objeto [(''type'', Str ''Point''), (''coordinates'', Ref ax)]"
  let ?feat = "Objeto [(''type'', Str ''Feature''), (''properties'', Ref ap),
                        (''geometry'', Ref ag)]"
  have eq: "parse_feature f h = (Ref af, ?h1 @ [?props, ?coords, ?geom, ?feat])"
    by (simp add: parse_feature_eq Let_def ap_def ax_def ag_def af_def)
  from pre have pre': "prefix (?h1 @ [?props, ?coords, ?geom, ?feat]) h'"
    by (simp add: eq)
  have len: "ap < length h'" "ax < length h'" "ag < length h'" "af < length h'"
    using prefix_length_le [OF pre'] by (simp_all add: ap_def ax_def ag_def af_def)
  have p1: "prefix ?h1 h'" using pre' by (rule append_prefixD)
  have c0: "h' ! ap = ?props"
    using prefix_nth [OF pre', of ap] by (simp add: nth_append ap_def)
  have c1: "h' ! ax = ?coords"
    using prefix_nth [OF pre', of ax] by (simp add: nth_append ax_def)
  have c2: "h' ! ag = ?geom"
    using prefix_nth [OF pre', of ag] by (simp add: nth_append ag_def)
  have c3: "h' ! af = ?feat"
    using prefix_nth [OF pre', of af] by (simp add: nth_append af_def)
  note e0 = entradas_Ref [OF len(1) c0]
  note e1 = elementos_Ref [OF len(2) c1]
  note e2 = entradas_Ref [OF len(3) c2]
  note e3 = entradas_Ref [OF len(4) c3]
  have cl: "leer_mapa leer_clase h' ?rc = ?cs"
    using leer_clase_celda p1 by (rule parse_mapa_leer)
  have "leer_feature h' (Ref af) = f"
    by (simp add: leer_feature_def Let_def propiedad_def indice_def e0 e1 e2 e3 cl numero_def
        cadena_def)
  then show ?thesis by (simp add: eq)
qed

lemma parse_features_prefix: "prefix h0 h \<Longrightarrow> prefix h0 (snd (parse_features fs h))"
  by (induction fs arbitrary: h) (simp_all add: Let_def case_prod_beta parse_feature_prefix)

lemma parse_features_leer:
  "prefix (snd (parse_features fs h)) h' \<Longrightarrow> map (leer_feature h') (fst (parse_features fs h)) = fs"
proof (induction fs arbitrary: h)
  case Nil
  then show ?case by simp
next
  case (Cons f fs)
  let ?h1 = "snd (parse_feature f h)"
  from Cons.prems have pre: "prefix (snd (parse_features fs ?h1)) h'"
    by (simp add: Let_def case_prod_beta)
  have "prefix ?h1 (snd (parse_features fs ?h1))" by (rule parse_features_prefix) simp
  with pre have "prefix ?h1 h'" by (rule prefix_order.trans [rotated])
  then have "leer_feature h' (fst (parse_feature f h)) = f" by (rule parse_feature_leer)
  moreover have "map (leer_feature h') (fst (parse_features fs ?h1)) = fs"
    using pre by (rule Cons.IH)
  ultimately show ?case by (simp add: Let_def case_prod_beta)
qed

lemma parse_provincias_eq:
  "parse_provincias fs h =
     (Ref (length (snd (parse_features fs h))),
      snd (parse_features fs h) @ [Arreglo (fst (parse_features fs h))])"
  by (simp add: parse_provincias_def alojar_def Let_def case_prod_beta)

lemma parse_provincias_prefix: "prefix h0 h \<Longrightarrow> prefix h0 (snd (parse_provincias fs h))"
  by (simp add: parse_provincias_eq parse_features_prefix)

lemma parse_provincias_leer:
  assumes pre: "prefix (snd (parse_provincias fs h)) h'"
  shows "map (leer_feature h') (elementos h' (fst (parse_provincias fs h))) = fs"
proof -
  let ?h1 = "snd (parse_features fs h)"
  from pre have pre': "prefix (?h1 @ [Arreglo (fst (parse_features fs h))]) h'"
    by (simp add: parse_provincias_eq)
  then have len: "length ?h1 < length h'" using prefix_length_le [OF pre'] by simp
  have "h' ! length ?h1 = Arreglo (fst (parse_features fs h))"
    using prefix_nth [OF pre', of "length ?h1"] by simp
  with len have "elementos h' (Ref (length ?h1)) = fst (parse_features fs h)"
    by (rule elementos_Ref)
  moreover have "prefix ?h1 h'" using pre' by (rule append_prefixD)
  ultimately show ?thesis by (simp add: parse_provincias_eq parse_features_leer)
qed

subsection \<open>The loaded data\<close>

lemma parse_mapa_Ref: "fst (parse_mapa celda_de xs h) \<noteq> Undefined"
  by (simp add: parse_mapa_eq)

lemma parse_provincias_Ref: "fst (parse_provincias fs h) \<noteq> Undefined"
  by (simp add: parse_provincias_eq)

lemma parse_documento_leer:
  assumes pre: "prefix (snd (parse_documento d h)) h'"
  shows "leer_documento h' (fst (parse_documento d h)) = d"
proof -
  define P where "P = (case provincias d of None \<Rightarrow> (Undefined, h)
                      | Some fs \<Rightarrow> parse_provincias fs h)"
  define C where "C = (case clasificaciones_doc d of None \<Rightarrow> (Undefined, snd P)
                      | Some cat \<Rightarrow> parse_mapa celda_catalogo cat (snd P))"
  define a where "a = length (snd C)"
  let ?obj = "Objeto (campo ''provincias'' (fst P) @ campo ''clasificaciones'' (fst C))"
  have eq: "parse_documento d h = (Ref a, snd C @ [?obj])"
    unfolding parse_documento_def a_def C_def P_def alojar_def Let_def case_prod_beta by simp
  from pre have pre': "prefix (snd C @ [?obj]) h'" by (simp add: eq)
  have len: "a < length h'" using prefix_length_le [OF pre'] by (simp add: a_def)
  have "h' ! a = ?obj" using prefix_nth [OF pre', of a] by (simp add: a_def)
  note ent = entradas_Ref [OF len this]
  have pC: "prefix (snd C) h'" using pre' by (rule append_prefixD)
  have "prefix (snd P) (snd C)"
    by (simp add: C_def parse_mapa_prefix split: option.splits)
  then have pP: "prefix (snd P) h'" using pC by (rule prefix_order.trans)
  have rp: "propiedad h' (Ref a) ''provincias'' = fst P"
    by (simp add: propiedad_def ent campo_def)
  have rc: "propiedad h' (Ref a) ''clasificaciones'' = fst C"
    by (simp add: propiedad_def ent campo_def)
  have provs: "(if fst P = Undefined then None
                else Some (map (leer_feature h') (elementos h' (fst P)))) = provincias d"
  proof (cases "provincias d")
    case None
    then show ?thesis by (simp add: P_def)
  next
    case (Some fs)
    then have P: "P = parse_provincias fs h" by (simp add: P_def)
    then show ?thesis
      using pP parse_provincias_leer [of fs h h'] Some by (simp add: parse_provincias_Ref)
  qed
  have cat: "(if fst C = Undefined then None
              else Some (leer_mapa leer_catalogo h' (fst C))) = clasificaciones_doc d"
  proof (cases "clasificaciones_doc d")
    case None
    then show ?thesis by (simp add: C_def)
  next
    case (Some cat)
    then have C: "C = parse_mapa celda_catalogo cat (snd P)" by (simp add: C_def)
    have "leer_mapa leer_catalogo h' (fst (parse_mapa celda_catalogo cat (snd P))) = cat"
      using leer_catalogo_celda pC [unfolded C] by (rule parse_mapa_leer)
    then show ?thesis using Some by (simp add: C parse_mapa_Ref)
  qed
  have "leer_documento h' (Ref a)
          = \<lparr>provincias = (if fst P = Undefined then None
                           else Some (map (leer_feature h') (elementos h' (fst P)))),
             clasificaciones_doc = (if fst C = Undefined then None
                                    else Some (leer_mapa leer_catalogo h' (fst C)))\<rparr>"
    by (simp only: leer_documento_def rp rc)
  also have "\<dots> = \<lparr>provincias = provincias d, clasificaciones_doc = clasificaciones_doc d\<rparr>"
    by (simp only: provs cat)
  also have "\<dots> = d" by simp
  finally show ?thesis by (simp add: eq)
qed

lemma parse_documento_prefix: "prefix h0 h \<Longrightarrow> prefix h0 (snd (parse_documento d h))"
  by (simp add: parse_documento_def alojar_def Let_def case_prod_beta
      parse_provincias_prefix parse_mapa_prefix split: option.splits)

text \<open>Both documents read back from any store that extends the one they were parsed into.\<close>

lemma parse_ambos_leer:
  assumes "prefix (snd (parse_ambos d ms h)) h'"
  shows "leer_documento h' (fst (fst (parse_ambos d ms h))) = d
     \<and> leer_mapa leer_maximo h' (snd (fst (parse_ambos d ms h))) = ms"
proof -
  let ?h1 = "snd (parse_documento d h)"
  from assms have p2: "prefix (snd (parse_mapa celda_maximo ms ?h1)) h'"
    by (simp add: parse_ambos_def Let_def case_prod_beta)
  have "prefix ?h1 (snd (parse_mapa celda_maximo ms ?h1))" by (rule parse_mapa_prefix) simp
  then have p1: "prefix ?h1 h'" using p2 by (rule prefix_order.trans)
  have "leer_documento h' (fst (parse_documento d h)) = d" using p1 by (rule parse_documento_leer)
  moreover have "leer_mapa leer_maximo h' (fst (parse_mapa celda_maximo ms ?h1)) = ms"
    using leer_maximo_celda p2 by (rule parse_mapa_leer)
  ultimately show ?thesis by (simp add: parse_ambos_def Let_def case_prod_beta)
qed

text \<open>The in-place sort does write: in the store of \<open>ejemplo_maximos\<close> the array of
  entries is cell 7, and \<open>crearGraficoMaximos\<close> leaves it reordered.\<close>

lemma sort_en_sitio_escribe:
  "snd (object_entries (Ref 3) (snd (parse_mapa celda_maximo ejemplo_maximos []))) ! 7
     = Arreglo [Ref 4, Ref 5, Ref 6]
   \<and> snd (crearGraficoMaximos_m (Ref 3) (snd (parse_mapa celda_maximo ejemplo_maximos []))) ! 7
     = Arreglo [Ref 5, Ref 4, Ref 6]"
  by code_simp

text \<open>
  Claim C8. The fields: after initialisation and any sequence of popups,
  \<open>this.datosProvincias\<close> and \<open>this.clasificaciones\<close> still hold what the primary
  document delivered when it was loaded, and no renderer assigns them. The objects: every
  renderer (markers, detail chart, maxima panel, legend), called on any reference in any
  store, only adds cells to the store, and so does any sequence of such calls; the one
  write into an existing cell, the in-place sort, goes to an array that the same call has
  just made. Hence, in the store that holds the primary document and the maxima document
  as \<open>cargarDatos\<close> parsed them, after any sequence of renderer calls every cell of the
  two documents is as it was, and the province features, the classification catalog and
  the maxima mapping read back from that store are the ones that were loaded.
\<close>

theorem datos_sin_mutar:
  "datosProvincias (sesion lc r evs)
     = (case primario r of Cuerpo d \<Rightarrow> provincias d | _ \<Rightarrow> None)
   \<and> clasificaciones_t (sesion lc r evs)
     = (case primario r of Cuerpo d \<Rightarrow> clasificaciones_doc d | _ \<Rightarrow> None)
   \<and> datosProvincias (agregarMarcadoresProvincias s) = datosProvincias s
   \<and> clasificaciones_t (agregarMarcadoresProvincias s) = clasificaciones_t s
   \<and> datosProvincias (inicializarMapa s) = datosProvincias s
   \<and> clasificaciones_t (inicializarMapa s) = clasificaciones_t s
   \<and> datosProvincias (crearGraficoEnPopup provinciaNombre clasifs s) = datosProvincias s
   \<and> clasificaciones_t (crearGraficoEnPopup provinciaNombre clasifs s) = clasificaciones_t s
   \<and> datosProvincias (crearGraficoMaximos maximosData s) = datosProvincias s
   \<and> clasificaciones_t (crearGraficoMaximos maximosData s) = clasificaciones_t s
   \<and> datosProvincias (crearLeyenda lc s) = datosProvincias s
   \<and> clasificaciones_t (crearLeyenda lc s) = clasificaciones_t s
   \<and> prefix h (snd (agregarMarcadoresProvincias_m v h))
   \<and> prefix h (snd (crearGraficoEnPopup_m v h))
   \<and> prefix h (snd (crearGraficoMaximos_m v h))
   \<and> prefix h (snd (crearLeyenda_m lc v h))
   \<and> prefix h (fold (ejecutar lc) ops h)
   \<and> prefix (snd (parse_ambos doc ms h)) (fold (ejecutar lc) ops (snd (parse_ambos doc ms h)))
   \<and> leer_documento (fold (ejecutar lc) ops (snd (parse_ambos doc ms h)))
        (fst (fst (parse_ambos doc ms h))) = doc
   \<and> leer_mapa leer_maximo (fold (ejecutar lc) ops (snd (parse_ambos doc ms h)))
        (snd (fst (parse_ambos doc ms h))) = ms"
proof -
  have a: "datosProvincias (sesion lc r evs)
     = (case primario r of Cuerpo d \<Rightarrow> provincias d | _ \<Rightarrow> None)
   \<and> clasificaciones_t (sesion lc r evs)
     = (case primario r of Cuerpo d \<Rightarrow> clasificaciones_doc d | _ \<Rightarrow> None)"
    using sesion_datos [of lc r evs] init_datos [of lc r] by simp
  have b: "datosProvincias (agregarMarcadoresProvincias s) = datosProvincias s
   \<and> clasificaciones_t (agregarMarcadoresProvincias s) = clasificaciones_t s
   \<and> datosProvincias (inicializarMapa s) = datosProvincias s
   \<and> clasificaciones_t (inicializarMapa s) = clasificaciones_t s"
    by (simp add: agregarMarcadoresProvincias_def inicializarMapa_def split: option.splits)
  have c: "datosProvincias (crearGraficoEnPopup provinciaNombre clasifs s) = datosProvincias s
   \<and> clasificaciones_t (crearGraficoEnPopup provinciaNombre clasifs s) = clasificaciones_t s"
    by (simp add: crearGraficoEnPopup_def destroy_def Let_def split: option.splits)
  have d: "datosProvincias (crearGraficoMaximos maximosData s) = datosProvincias s
   \<and> clasificaciones_t (crearGraficoMaximos maximosData s) = clasificaciones_t s
   \<and> datosProvincias (crearLeyenda lc s) = datosProvincias s
   \<and> clasificaciones_t (crearLeyenda lc s) = clasificaciones_t s"
    by (simp add: crearGraficoMaximos_def crearLeyenda_def Let_def split: option.splits)
  have e: "prefix h (snd (agregarMarcadoresProvincias_m v h))
   \<and> prefix h (snd (crearGraficoEnPopup_m v h))
   \<and> prefix h (snd (crearGraficoMaximos_m v h))
   \<and> prefix h (snd (crearLeyenda_m lc v h))
   \<and> prefix h (fold (ejecutar lc) ops h)"
    by (simp add: agregarMarcadoresProvincias_m_prefix crearGraficoEnPopup_m_prefix
        crearGraficoMaximos_m_prefix crearLeyenda_m_prefix fold_ejecutar_prefix)
  have f: "prefix (snd (parse_ambos doc ms h)) (fold (ejecutar lc) ops (snd (parse_ambos doc ms h)))"
    by (rule fold_ejecutar_prefix) simp
  note g = parse_ambos_leer [OF f]
  show ?thesis using a b c d e f g by simp
qed

subsection \<open>The renderers on the store compute what the renderers on values compute\<close>

lemma insertar_map:
  "map f (insertar (\<lambda>a b. c (f a) (f b)) x ys) = insertar c (f x) (map f ys)"
  by (induction ys) auto

lemma sort_js_map: "map f (sort_js (\<lambda>a b. c (f a) (f b)) xs) = sort_js c (map f xs)"
  by (induction xs) (simp_all add: insertar_map)

lemma object_entries_eq:
  "object_entries v h =
     (Ref (length h + length (entradas h v)),
      h @ map (\<lambda>e. Arreglo [Str (fst e), snd e]) (entradas h v)
        @ [Arreglo (map Ref [length h ..< length h + length (entradas h v)])])"
  by (simp add: object_entries_def alojar_todos_def alojar_def)

lemma parse_mapa_entradas:
  assumes "prefix (snd (parse_mapa celda_de xs h0)) h"
  shows "entradas h (fst (parse_mapa celda_de xs h0))
           = zip (map fst xs) (map Ref [length h0 ..< length h0 + length xs])"
proof -
  let ?L = "length h0" and ?n = "length xs"
  let ?hp = "h0 @ map (\<lambda>e. celda_de (snd e)) xs
        @ [Objeto (zip (map fst xs) (map Ref [?L ..< ?L + ?n]))]"
  from assms have pre': "prefix ?hp h" by (simp add: parse_mapa_eq)
  then have len: "?L + ?n < length h" using prefix_length_le [OF pre'] by simp
  have "h ! (?L + ?n) = Objeto (zip (map fst xs) (map Ref [?L ..< ?L + ?n]))"
    using prefix_nth [OF pre', of "?L + ?n"] by (simp add: nth_append)
  with len show ?thesis by (simp add: parse_mapa_eq entradas_Ref)
qed

lemma parse_mapa_celda:
  assumes "prefix (snd (parse_mapa celda_de xs h0)) h" and "i < length xs"
  shows "length h0 + i < length h \<and> h ! (length h0 + i) = celda_de (snd (xs ! i))"
proof -
  let ?L = "length h0" and ?n = "length xs"
  let ?hp = "h0 @ map (\<lambda>e. celda_de (snd e)) xs
        @ [Objeto (zip (map fst xs) (map Ref [?L ..< ?L + ?n]))]"
  from assms have pre': "prefix ?hp h" by (simp add: parse_mapa_eq)
  then show ?thesis
    using prefix_length_le [OF pre'] prefix_nth [OF pre', of "?L + i"] assms(2)
    by (simp add: nth_append)
qed

text \<open>
  The entries that \<open>Object.entries\<close> makes of a parsed mapping, read in a store \<open>h'\<close> that
  still has the mapping's cells and the entries' cells: they are the mapping.
\<close>

lemma pares_leer:
  assumes lee: "\<And>h' a x. a < length h' \<Longrightarrow> h' ! a = celda_de x \<Longrightarrow> leer h' (Ref a) = x"
    and pre: "prefix (snd (parse_mapa celda_de xs h0)) h'"
    and pares: "\<And>i. i < length xs \<Longrightarrow>
                  L + i < length h' \<and> h' ! (L + i) = Arreglo [Str (fst (xs ! i)), Ref (length h0 + i)]"
  shows "map (leer_par leer h') (map Ref [L ..< L + length xs]) = xs"
proof (rule nth_equalityI)
  show "length (map (leer_par leer h') (map Ref [L ..< L + length xs])) = length xs" by simp
next
  fix i assume "i < length (map (leer_par leer h') (map Ref [L ..< L + length xs]))"
  then have i: "i < length xs" by simp
  from pares [OF i] have el: "elementos h' (Ref (L + i)) = [Str (fst (xs ! i)), Ref (length h0 + i)]"
    by (simp add: elementos_Ref)
  from parse_mapa_celda [OF pre i] have "leer h' (Ref (length h0 + i)) = snd (xs ! i)"
    using lee by blast
  then have "leer_par leer h' (Ref (L + i)) = xs ! i"
    by (simp add: leer_par_def indice_def el cadena_def)
  then show "map (leer_par leer h') (map Ref [L ..< L + length xs]) ! i = xs ! i"
    using i by simp
qed

lemma pares_en_su_sitio:
  assumes "i < length xs"
  shows "length h + i
           < length (h @ map (\<lambda>e. Arreglo [Str (fst e), snd e])
                           (zip (map fst xs) (map Ref [M ..< M + length xs])) @ resto)
     \<and> (h @ map (\<lambda>e. Arreglo [Str (fst e), snd e])
               (zip (map fst xs) (map Ref [M ..< M + length xs])) @ resto) ! (length h + i)
         = Arreglo [Str (fst (xs ! i)), Ref (M + i)]"
proof -
  let ?ps = "map (\<lambda>e. Arreglo [Str (fst e), snd e])
               (zip (map fst xs) (map Ref [M ..< M + length xs]))"
  have len: "length ?ps = length xs" by simp
  have "?ps ! i = Arreglo [Str (fst (xs ! i)), Ref (M + i)]" using assms by simp
  moreover have "(h @ ?ps @ resto) ! (length h + i) = ?ps ! i"
    using assms len by (simp add: nth_append)
  ultimately show ?thesis using assms len by simp
qed

lemma entradas_leer:
  assumes lee: "\<And>h' a x. a < length h' \<Longrightarrow> h' ! a = celda_de x \<Longrightarrow> leer h' (Ref a) = x"
    and pre: "prefix (snd (parse_mapa celda_de xs h0)) h"
  shows "map (leer_par leer (snd (object_entries (fst (parse_mapa celda_de xs h0)) h)))
             (elementos (snd (object_entries (fst (parse_mapa celda_de xs h0)) h))
                        (fst (object_entries (fst (parse_mapa celda_de xs h0)) h))) = xs"
proof -
  let ?r = "fst (parse_mapa celda_de xs h0)"
  let ?L = "length h" and ?n = "length xs"
  let ?ps = "zip (map fst xs) (map Ref [length h0 ..< length h0 + ?n])"
  let ?h1 = "h @ map (\<lambda>e. Arreglo [Str (fst e), snd e]) ?ps @ [Arreglo (map Ref [?L ..< ?L + ?n])]"
  have ent: "entradas h ?r = ?ps" using pre by (rule parse_mapa_entradas)
  have oe: "object_entries ?r h = (Ref (?L + ?n), ?h1)"
    by (simp add: object_entries_eq ent)
  have el: "elementos ?h1 (Ref (?L + ?n)) = map Ref [?L ..< ?L + ?n]"
    by (simp add: elementos_def nth_append)
  have p1: "prefix (snd (parse_mapa celda_de xs h0)) ?h1"
    using pre by simp
  have "map (leer_par leer ?h1) (map Ref [?L ..< ?L + ?n]) = xs"
  proof (rule pares_leer [where leer = leer and celda_de = celda_de and ?h0.0 = h0])
    show "\<And>h' a x. a < length h' \<Longrightarrow> h' ! a = celda_de x \<Longrightarrow> leer h' (Ref a) = x"
      by (rule lee)
    show "prefix (snd (parse_mapa celda_de xs h0)) ?h1" by (rule p1)
    show "\<And>i. i < length xs \<Longrightarrow> ?L + i < length ?h1
            \<and> ?h1 ! (?L + i) = Arreglo [Str (fst (xs ! i)), Ref (length h0 + i)]"
      by (rule pares_en_su_sitio)
  qed
  then show ?thesis by (simp add: oe el)
qed

lemma entradas_ordenadas_leer:
  assumes lee: "\<And>h' a x. a < length h' \<Longrightarrow> h' ! a = celda_de x \<Longrightarrow> leer h' (Ref a) = x"
    and pre: "prefix (snd (parse_mapa celda_de xs h0)) h"
  defines "es \<equiv> fst (object_entries (fst (parse_mapa celda_de xs h0)) h)"
    and "h1 \<equiv> snd (object_entries (fst (parse_mapa celda_de xs h0)) h)"
  shows "map (leer_par leer (sort_en_sitio (\<lambda>a b. c (leer_par leer h1 a) (leer_par leer h1 b)) es h1))
             (elementos (sort_en_sitio (\<lambda>a b. c (leer_par leer h1 a) (leer_par leer h1 b)) es h1) es)
           = sort_js c xs"
proof -
  let ?r = "fst (parse_mapa celda_de xs h0)"
  let ?L = "length h" and ?n = "length xs"
  let ?ps = "zip (map fst xs) (map Ref [length h0 ..< length h0 + ?n])"
  let ?refs = "map Ref [?L ..< ?L + ?n]"
  let ?h1 = "h @ map (\<lambda>e. Arreglo [Str (fst e), snd e]) ?ps @ [Arreglo ?refs]"
  let ?cmp = "\<lambda>a b. c (leer_par leer ?h1 a) (leer_par leer ?h1 b)"
  let ?h2 = "?h1[?L + ?n := Arreglo (sort_js ?cmp ?refs)]"
  have ent: "entradas h ?r = ?ps" using pre by (rule parse_mapa_entradas)
  have oe: "object_entries ?r h = (Ref (?L + ?n), ?h1)"
    by (simp add: object_entries_eq ent)
  have es: "es = Ref (?L + ?n)" and h1: "h1 = ?h1" by (simp_all add: es_def h1_def oe)
  have so: "sort_en_sitio ?cmp (Ref (?L + ?n)) ?h1 = ?h2"
    by (simp add: sort_en_sitio_def nth_append)
  have el: "elementos ?h2 (Ref (?L + ?n)) = sort_js ?cmp ?refs"
    by (simp add: elementos_def)
  have p1: "prefix (snd (parse_mapa celda_de xs h0)) ?h1"
    using pre by simp
  have "prefix h ?h2" by (simp add: list_update_append)
  with pre have p2: "prefix (snd (parse_mapa celda_de xs h0)) ?h2" by (rule prefix_order.trans)
  have r1: "map (leer_par leer ?h1) ?refs = xs"
  proof (rule pares_leer [where leer = leer and celda_de = celda_de and ?h0.0 = h0])
    show "\<And>h' a x. a < length h' \<Longrightarrow> h' ! a = celda_de x \<Longrightarrow> leer h' (Ref a) = x"
      by (rule lee)
    show "prefix (snd (parse_mapa celda_de xs h0)) ?h1" by (rule p1)
    show "\<And>i. i < length xs \<Longrightarrow> ?L + i < length ?h1
            \<and> ?h1 ! (?L + i) = Arreglo [Str (fst (xs ! i)), Ref (length h0 + i)]"
      by (rule pares_en_su_sitio)
  qed
  have r2: "map (leer_par leer ?h2) ?refs = xs"
  proof (rule pares_leer [where leer = leer and celda_de = celda_de and ?h0.0 = h0])
    show "\<And>h' a x. a < length h' \<Longrightarrow> h' ! a = celda_de x \<Longrightarrow> leer h' (Ref a) = x"
      by (rule lee)
    show "prefix (snd (parse_mapa celda_de xs h0)) ?h2" by (rule p2)
  next
    fix i assume i: "i < length xs"
    from pares_en_su_sitio [OF i, of h "length h0" "[Arreglo ?refs]"]
    show "?L + i < length ?h2 \<and> ?h2 ! (?L + i) = Arreglo [Str (fst (xs ! i)), Ref (length h0 + i)]"
      using i by simp
  qed
  have same: "leer_par leer ?h2 e = leer_par leer ?h1 e" if "e \<in> set ?refs" for e
  proof -
    from that obtain i where i: "i < length ?refs" and e: "e = ?refs ! i"
      by (metis in_set_conv_nth)
    have "map (leer_par leer ?h2) ?refs ! i = map (leer_par leer ?h1) ?refs ! i"
      by (simp only: r1 r2)
    then show ?thesis using i e by (simp only: nth_map)
  qed
  have "map (leer_par leer ?h2) (sort_js ?cmp ?refs) = map (leer_par leer ?h1) (sort_js ?cmp ?refs)"
    by (rule map_cong [OF refl]) (simp add: set_sort_js same del: set_map set_upt)
  also have "\<dots> = sort_js c (map (leer_par leer ?h1) ?refs)" by (rule sort_js_map)
  also have "\<dots> = sort_js c xs" by (simp only: r1)
  finally show ?thesis by (simp only: es h1 so el)
qed

text \<open>On a parsed maxima mapping the renderer on the store computes the rows of
  \<open>crearGraficoMaximos\<close>, and on a parsed catalog those of \<open>crearLeyenda\<close>.\<close>

lemma crearGraficoMaximos_m_filas:
  assumes "prefix (snd (parse_mapa celda_maximo ms h0)) h"
  shows "Some (fst (crearGraficoMaximos_m (fst (parse_mapa celda_maximo ms h0)) h))
           = maximosItems (crearGraficoMaximos ms s)"
proof -
  let ?oe = "object_entries (fst (parse_mapa celda_maximo ms h0)) h"
  let ?h2 = "sort_en_sitio
               (\<lambda>a b. porcentaje_maximo (snd (leer_par leer_maximo (snd ?oe) b))
                      - porcentaje_maximo (snd (leer_par leer_maximo (snd ?oe) a)))
               (fst ?oe) (snd ?oe)"
  have k: "map (leer_par leer_maximo ?h2) (elementos ?h2 (fst ?oe))
             = sort_js (\<lambda>a b. porcentaje_maximo (snd b) - porcentaje_maximo (snd a)) ms"
    by (rule entradas_ordenadas_leer [where leer = leer_maximo and celda_de = celda_maximo
          and c = "\<lambda>a b. porcentaje_maximo (snd b) - porcentaje_maximo (snd a)",
          OF leer_maximo_celda assms])
  have "fst (crearGraficoMaximos_m (fst (parse_mapa celda_maximo ms h0)) h)
          = map fila_de_maximo (map (leer_par leer_maximo ?h2) (elementos ?h2 (fst ?oe)))"
    by (simp add: crearGraficoMaximos_m_def Let_def case_prod_beta)
  then show ?thesis by (simp only: k) (simp add: crearGraficoMaximos_def Let_def)
qed

lemma crearLeyenda_m_filas:
  assumes "prefix (snd (parse_mapa celda_catalogo cat h0)) h"
    and "clasificaciones_t s = Some cat"
  shows "Some (fst (crearLeyenda_m lc (fst (parse_mapa celda_catalogo cat h0)) h))
           = legendItems (crearLeyenda lc s)"
proof -
  let ?oe = "object_entries (fst (parse_mapa celda_catalogo cat h0)) h"
  let ?h2 = "sort_en_sitio
               (\<lambda>a b. lc (nombre (snd (leer_par leer_catalogo (snd ?oe) a)))
                         (nombre (snd (leer_par leer_catalogo (snd ?oe) b))))
               (fst ?oe) (snd ?oe)"
  have k: "map (leer_par leer_catalogo ?h2) (elementos ?h2 (fst ?oe))
             = sort_js (\<lambda>a b. lc (nombre (snd a)) (nombre (snd b))) cat"
    by (rule entradas_ordenadas_leer [where leer = leer_catalogo and celda_de = celda_catalogo
          and c = "\<lambda>a b. lc (nombre (snd a)) (nombre (snd b))",
          OF leer_catalogo_celda assms(1)])
  have "fst (crearLeyenda_m lc (fst (parse_mapa celda_catalogo cat h0)) h)
          = map fila_de_clase (map (leer_par leer_catalogo ?h2) (elementos ?h2 (fst ?oe)))"
    by (simp add: crearLeyenda_m_def Let_def case_prod_beta parse_mapa_Ref)
  then show ?thesis using assms(2) by (simp only: k) (simp add: crearLeyenda_def Let_def)
qed

lemma parse_feature_clasificaciones:
  assumes pre: "prefix (snd (parse_feature f h0)) h"
  shows "propiedad h (propiedad h (fst (parse_feature f h0)) ''properties'') ''clasificaciones''
           = fst (parse_mapa celda_clase (clasificaciones (properties f)) h0)
     \<and> prefix (snd (parse_mapa celda_clase (clasificaciones (properties f)) h0)) h"
proof -
  let ?cs = "clasificaciones (properties f)"
  let ?h1 = "snd (parse_mapa celda_clase ?cs h0)"
  let ?rc = "fst (parse_mapa celda_clase ?cs h0)"
  define ap where "ap = length ?h1"
  define ax where "ax = length ?h1 + 1"
  define ag where "ag = length ?h1 + 2"
  define af where "af = length ?h1 + 3"
  let ?props = "Objeto [(''provincia'', Str (provincia (properties f))),
                        (''area_total_km2'', Num (area_total_km2 (properties f))),
                        (''total_pixels'', Num (total_pixels (properties f))),
                        (''clasificaciones'', ?rc)]"
  let ?coords = "Arreglo [Num (fst (coordinates f)), Num (snd (coordinates f))]"
  let ?geom = "Objeto [(''type'', Str ''Point''), (''coordinates'', Ref ax)]"
  let ?feat = "Objeto [(''type'', Str ''Feature''), (''properties'', Ref ap),
                        (''geometry'', Ref ag)]"
  have eq: "parse_feature f h0 = (Ref af, ?h1 @ [?props, ?coords, ?geom, ?feat])"
    by (simp add: parse_feature_eq Let_def ap_def ax_def ag_def af_def)
  from pre have pre': "prefix (?h1 @ [?props, ?coords, ?geom, ?feat]) h"
    by (simp add: eq)
  have len: "ap < length h" "af < length h"
    using prefix_length_le [OF pre'] by (simp_all add: ap_def af_def)
  have p1: "prefix ?h1 h" using pre' by (rule append_prefixD)
  have c0: "h ! ap = ?props"
    using prefix_nth [OF pre', of ap] by (simp add: nth_append ap_def)
  have c3: "h ! af = ?feat"
    using prefix_nth [OF pre', of af] by (simp add: nth_append af_def)
  note e0 = entradas_Ref [OF len(1) c0]
  note e3 = entradas_Ref [OF len(2) c3]
  have "propiedad h (propiedad h (Ref af) ''properties'') ''clasificaciones'' = ?rc"
    by (simp add: propiedad_def e0 e3)
  then show ?thesis using p1 by (simp add: eq)
qed

text \<open>On a parsed feature the two callbacks on the store compute the fill colour of
  \<open>pointToLayer\<close> and the dominant class of \<open>onEachFeature\<close>.\<close>

lemma pointToLayer_m_igual:
  assumes "prefix (snd (parse_feature f h0)) h"
  shows "fst (pointToLayer_m (fst (parse_feature f h0)) h) = fillColor (pointToLayer f ll)"
proof -
  let ?rc = "fst (parse_mapa celda_clase (clasificaciones (properties f)) h0)"
  note pc = parse_feature_clasificaciones [OF assms]
  have k: "map (leer_par leer_clase (snd (object_entries ?rc h)))
             (elementos (snd (object_entries ?rc h)) (fst (object_entries ?rc h)))
           = clasificaciones (properties f)"
    by (rule entradas_leer [where leer = leer_clase and celda_de = celda_clase,
          OF leer_clase_celda conjunct2 [OF pc]])
  show ?thesis
    by (simp add: pointToLayer_m_def pointToLayer_def Let_def case_prod_beta conjunct1 [OF pc] k)
qed

lemma onEachFeature_m_igual:
  assumes "prefix (snd (parse_feature f h0)) h"
  shows "fst (onEachFeature_m (fst (parse_feature f h0)) h)
           = (popup_claseDominante (onEachFeature f), popup_maxPorcentaje (onEachFeature f))"
proof -
  let ?rc = "fst (parse_mapa celda_clase (clasificaciones (properties f)) h0)"
  note pc = parse_feature_clasificaciones [OF assms]
  have k: "map (leer_par leer_clase (snd (object_entries ?rc h)))
             (elementos (snd (object_entries ?rc h)) (fst (object_entries ?rc h)))
           = clasificaciones (properties f)"
    by (rule entradas_leer [where leer = leer_clase and celda_de = celda_clase,
          OF leer_clase_celda conjunct2 [OF pc]])
  show ?thesis
    by (simp add: onEachFeature_m_def onEachFeature_def Let_def case_prod_beta conjunct1 [OF pc] k)
qed

lemma marcadores_m_igual:
  "prefix (snd (parse_features fs h0)) h \<Longrightarrow>
   fst (marcadores_m (fst (parse_features fs h0)) h)
     = map (\<lambda>f. (fillColor (marker (geoJSON f)),
                 popup_claseDominante (capa_popup (geoJSON f)),
                 popup_maxPorcentaje (capa_popup (geoJSON f)))) fs"
proof (induction fs arbitrary: h0 h)
  case Nil
  then show ?case by simp
next
  case (Cons f fs)
  let ?r = "fst (parse_feature f h0)" and ?hp = "snd (parse_feature f h0)"
  let ?ha = "snd (pointToLayer_m ?r h)"
  let ?hb = "snd (onEachFeature_m ?r ?ha)"
  from Cons.prems have p02: "prefix (snd (parse_features fs ?hp)) h"
    by (simp add: Let_def case_prod_beta)
  have "prefix ?hp (snd (parse_features fs ?hp))" by (rule parse_features_prefix) simp
  then have p01: "prefix ?hp h" using p02 by (rule prefix_order.trans)
  have ph1: "prefix h ?ha" by (rule pointToLayer_m_prefix) simp
  have ph2: "prefix ?ha ?hb" by (rule onEachFeature_m_prefix) simp
  have a: "fst (pointToLayer_m ?r h) = fillColor (marker (geoJSON f))"
    using pointToLayer_m_igual [OF p01] by (simp add: geoJSON_def)
  have b: "fst (onEachFeature_m ?r ?ha)
             = (popup_claseDominante (capa_popup (geoJSON f)),
                popup_maxPorcentaje (capa_popup (geoJSON f)))"
    using onEachFeature_m_igual [OF prefix_order.trans [OF p01 ph1]] by (simp add: geoJSON_def)
  have "prefix (snd (parse_features fs ?hp)) ?hb"
    using p02 ph1 ph2 by (meson prefix_order.trans)
  then have c: "fst (marcadores_m (fst (parse_features fs ?hp)) ?hb)
     = map (\<lambda>f. (fillColor (marker (geoJSON f)),
                 popup_claseDominante (capa_popup (geoJSON f)),
                 popup_maxPorcentaje (capa_popup (geoJSON f)))) fs"
    by (rule Cons.IH)
  show ?case by (simp add: Let_def case_prod_beta a b c)
qed

lemma agregarMarcadoresProvincias_m_igual:
  assumes pre: "prefix (snd (parse_provincias fs h0)) h"
  shows "fst (agregarMarcadoresProvincias_m (fst (parse_provincias fs h0)) h)
     = map (\<lambda>f. (fillColor (marker (geoJSON f)),
                 popup_claseDominante (capa_popup (geoJSON f)),
                 popup_maxPorcentaje (capa_popup (geoJSON f)))) fs"
proof -
  let ?h1 = "snd (parse_features fs h0)"
  from pre have pre': "prefix (?h1 @ [Arreglo (fst (parse_features fs h0))]) h"
    by (simp add: parse_provincias_eq)
  then have len: "length ?h1 < length h" using prefix_length_le [OF pre'] by simp
  have "h ! length ?h1 = Arreglo (fst (parse_features fs h0))"
    using prefix_nth [OF pre', of "length ?h1"] by simp
  with len have el: "elementos h (Ref (length ?h1)) = fst (parse_features fs h0)"
    by (rule elementos_Ref)
  have "prefix ?h1 h" using pre' by (rule append_prefixD)
  then show ?thesis
    by (simp add: agregarMarcadoresProvincias_m_def parse_provincias_eq el marcadores_m_igual)
qed

lemma propiedad_append: "a < length h \<Longrightarrow> propiedad (h @ zs) (Ref a) k = propiedad h (Ref a) k"
  by (simp add: propiedad_def entradas_def nth_append)

lemma elementos_append: "a < length h \<Longrightarrow> elementos (h @ zs) (Ref a) = elementos h (Ref a)"
  by (simp add: elementos_def nth_append)

lemma columnas_m_leer:
  assumes a: "a < length h" and arr: "h ! a = Arreglo S"
    and val: "\<forall>d\<in>set S. \<exists>b. d = Ref b \<and> b < length h"
  shows "fst (columnas_m (Ref a) h)
           = (map (\<lambda>d. cadena (propiedad h d ''nombre'')) S,
              map (\<lambda>d. numero (propiedad h d ''area'')) S,
              map (\<lambda>d. cadena (propiedad h d ''color'')) S,
              map (\<lambda>d. numero (propiedad h d ''porcentaje'')) S)"
proof -
  have el: "elementos h (Ref a) = S" using a arr by (rule elementos_Ref)
  define ha where "ha = h @ [Arreglo (map (\<lambda>d. propiedad h d ''nombre'') S)]"
  define hb where "hb = ha @ [Arreglo (map (\<lambda>d. propiedad ha d ''area'') S)]"
  define hc where "hc = hb @ [Arreglo (map (\<lambda>d. propiedad hb d ''color'') S)]"
  have ela: "elementos ha (Ref a) = S" using a el by (simp add: ha_def elementos_append)
  have elb: "elementos hb (Ref a) = S" using a ela by (simp add: hb_def ha_def elementos_append)
  have elc: "elementos hc (Ref a) = S"
    using a elb by (simp add: hc_def hb_def ha_def elementos_append)
  have pa: "propiedad ha d k = propiedad h d k" if "d \<in> set S" for d k
    using val that by (auto simp: ha_def propiedad_append)
  have pb: "propiedad hb d k = propiedad h d k" if "d \<in> set S" for d k
    using val that pa [OF that] by (auto simp: hb_def ha_def propiedad_append)
  have pc: "propiedad hc d k = propiedad h d k" if "d \<in> set S" for d k
    using val that pb [OF that] by (auto simp: hc_def hb_def ha_def propiedad_append)
  have l1: "elementos hc (Ref (length h)) = map (\<lambda>d. propiedad h d ''nombre'') S"
    by (simp add: hc_def hb_def ha_def elementos_def nth_append)
  have l2: "elementos hc (Ref (length ha)) = map (\<lambda>d. propiedad h d ''area'') S"
    using pa by (simp add: hc_def hb_def elementos_def nth_append cong: map_cong)
  have l3: "elementos hc (Ref (length hb)) = map (\<lambda>d. propiedad h d ''color'') S"
    using pb by (simp add: hc_def elementos_def nth_append cong: map_cong)
  have l4: "map (\<lambda>d. numero (propiedad hc d ''porcentaje'')) S
              = map (\<lambda>d. numero (propiedad h d ''porcentaje'')) S"
    using pc by (simp cong: map_cong)
  have "columnas_m (Ref a) h
          = ((map cadena (elementos hc (Ref (length h))),
              map numero (elementos hc (Ref (length ha))),
              map cadena (elementos hc (Ref (length hb))),
              map (\<lambda>d. numero (propiedad hc d ''porcentaje'')) (elementos hc (Ref a))), hc)"
    unfolding columnas_m_def map_valores_def alojar_def Let_def case_prod_beta fst_conv snd_conv
      el ha_def [symmetric] ela hb_def [symmetric] elb hc_def [symmetric] ..
  then show ?thesis by (simp add: l1 l2 l3 l4 elc comp_def)
qed


lemma map_objetos_eq:
  "map_objetos f arr h =
     (Ref (length h + length (elementos h arr)),
      h @ map (f h) (elementos h arr)
        @ [Arreglo (map Ref [length h ..< length h + length (elementos h arr)])])"
  by (simp add: map_objetos_def alojar_todos_def alojar_def)

text \<open>The array \<open>datos\<close> that \<open>crearGraficoEnPopup\<close> builds from a parsed class mapping: its
  elements refer to objects in the store, and read as records they are the projected
  entries in the order of the value-level sort.\<close>

lemma datos_m_leer:
  assumes pre: "prefix (snd (parse_mapa celda_clase cs h0)) h"
  shows "\<exists>a S. fst (datos_m (fst (parse_mapa celda_clase cs h0)) h) = Ref a
     \<and> a < length (snd (datos_m (fst (parse_mapa celda_clase cs h0)) h))
     \<and> snd (datos_m (fst (parse_mapa celda_clase cs h0)) h) ! a = Arreglo S
     \<and> (\<forall>d\<in>set S. \<exists>b. d = Ref b \<and> b < length (snd (datos_m (fst (parse_mapa celda_clase cs h0)) h)))
     \<and> map (leer_dato (snd (datos_m (fst (parse_mapa celda_clase cs h0)) h))) S
         = sort_js (\<lambda>x y. area y - area x) (map proyectar cs)"
proof -
  let ?r = "fst (parse_mapa celda_clase cs h0)"
  let ?n = "length cs"
  define L where "L = length h"
  define ps where "ps = zip (map fst cs) (map Ref [length h0 ..< length h0 + ?n])"
  define refs where "refs = map Ref [L ..< L + ?n]"
  define ha where "ha = h @ map (\<lambda>e. Arreglo [Str (fst e), snd e]) ps @ [Arreglo refs]"
  define M where "M = length ha"
  define celda_dato where "celda_dato = (\<lambda>d::dato. Objeto [(''nombre'', Str (nombre_dato d)),
     (''area'', Num (area d)), (''porcentaje'', Num (porcentaje_dato d)),
     (''color'', Str (color_dato d))])"
  define refs' where "refs' = map Ref [M ..< M + ?n]"
  define hb where "hb = ha @ map celda_dato (map proyectar cs) @ [Arreglo refs']"
  define cmp where "cmp = (\<lambda>a b. numero (propiedad hb b ''area'') - numero (propiedad hb a ''area''))"
  define S where "S = sort_js cmp refs'"
  define hc where "hc = hb[M + ?n := Arreglo S]"
  have ent: "entradas h ?r = ps" unfolding ps_def using pre by (rule parse_mapa_entradas)
  have lps: "length ps = ?n" by (simp add: ps_def)
  have oe: "object_entries ?r h = (Ref (L + ?n), ha)"
    by (simp add: object_entries_eq ent ha_def refs_def L_def lps)
  have Mn: "M = L + ?n + 1" by (simp add: M_def ha_def lps L_def)
  have el_a: "elementos ha (Ref (L + ?n)) = refs"
    by (simp add: elementos_def ha_def nth_append lps L_def)
  have pa: "prefix (snd (parse_mapa celda_clase cs h0)) ha"
    using pre by (simp add: ha_def)
  have od: "objeto_dato ha (Ref (L + i)) = celda_dato (proyectar (cs ! i))" if i: "i < ?n" for i
  proof -
    from pares_en_su_sitio [OF i, of h "length h0" "[Arreglo refs]"]
    have "L + i < length ha"
      and "ha ! (L + i) = Arreglo [Str (fst (cs ! i)), Ref (length h0 + i)]"
      by (simp_all add: ha_def ps_def L_def)
    then have el: "elementos ha (Ref (L + i)) = [Str (fst (cs ! i)), Ref (length h0 + i)]"
      by (rule elementos_Ref)
    from parse_mapa_celda [OF pa i]
    have "entradas ha (Ref (length h0 + i))
            = [(''area_km2'', Num (area_km2 (snd (cs ! i)))),
               (''porcentaje'', Num (porcentaje (snd (cs ! i)))),
               (''color'', Str (color (snd (cs ! i))))]"
      by (simp add: entradas_def celda_clase_def)
    then show ?thesis
      by (simp add: objeto_dato_def indice_def el propiedad_def celda_dato_def)
  qed
  have objs: "map (objeto_dato ha) refs = map celda_dato (map proyectar cs)"
  proof (rule nth_equalityI)
    show "length (map (objeto_dato ha) refs) = length (map celda_dato (map proyectar cs))"
      by (simp add: refs_def)
  next
    fix i assume "i < length (map (objeto_dato ha) refs)"
    then have i: "i < ?n" by (simp add: refs_def)
    then show "map (objeto_dato ha) refs ! i = map celda_dato (map proyectar cs) ! i"
      using od [OF i] by (simp add: refs_def)
  qed
  have objs': "map (objeto_dato ha \<circ> Ref) [L ..< L + ?n] = map (celda_dato \<circ> proyectar) cs"
    using objs by (simp add: refs_def)
  have mo: "map_objetos objeto_dato (Ref (L + ?n)) ha = (Ref (M + ?n), hb)"
    by (simp add: map_objetos_eq el_a objs' hb_def refs'_def M_def refs_def)
  have lhb: "length hb = M + ?n + 1" by (simp add: hb_def M_def refs'_def)
  have arr_b: "hb ! (M + ?n) = Arreglo refs'" by (simp add: hb_def nth_append M_def)
  have so: "sort_en_sitio cmp (Ref (M + ?n)) hb = hc"
    by (simp add: sort_en_sitio_def lhb arr_b hc_def S_def)
  have dm: "datos_m ?r h = (Ref (M + ?n), hc)"
    by (simp add: datos_m_def oe mo Let_def so [unfolded cmp_def])
  have lhc: "length hc = M + ?n + 1" by (simp add: hc_def lhb)
  have cell_b: "hb ! (M + i) = celda_dato (proyectar (cs ! i))" if "i < ?n" for i
    using that by (simp add: hb_def nth_append M_def)
  have cell_c: "hc ! (M + i) = celda_dato (proyectar (cs ! i))" if "i < ?n" for i
    using that cell_b [OF that] by (simp add: hc_def)
  have rd_b: "leer_dato hb (Ref (M + i)) = proyectar (cs ! i)" if "i < ?n" for i
    using that cell_b [OF that] lhb
    by (simp add: leer_dato_def propiedad_def entradas_def celda_dato_def numero_def cadena_def)
  have rd_c: "leer_dato hc (Ref (M + i)) = proyectar (cs ! i)" if "i < ?n" for i
    using that cell_c [OF that] lhc
    by (simp add: leer_dato_def propiedad_def entradas_def celda_dato_def numero_def cadena_def)
  have in_refs: "\<exists>i<?n. d = Ref (M + i)" if "d \<in> set refs'" for d
  proof -
    from that obtain j where "M \<le> j" and "j < M + ?n" and "d = Ref j"
      by (auto simp: refs'_def)
    then have "j - M < ?n" and "d = Ref (M + (j - M))" by simp_all
    then show ?thesis by blast
  qed
  have mb: "map (leer_dato hb) refs' = map proyectar cs"
    by (rule nth_equalityI) (simp_all add: refs'_def rd_b)
  have setS: "set S = set refs'" by (simp add: S_def set_sort_js)
  have same: "leer_dato hc d = leer_dato hb d" if "d \<in> set S" for d
    using in_refs [OF that [unfolded setS]] rd_b rd_c by auto
  have cmp_eq: "cmp = (\<lambda>a b. (\<lambda>x y. area y - area x) (leer_dato hb a) (leer_dato hb b))"
    by (simp add: cmp_def leer_dato_def)
  have "map (leer_dato hc) S = map (leer_dato hb) S"
    by (rule map_cong [OF refl]) (rule same)
  also have "\<dots> = sort_js (\<lambda>x y. area y - area x) (map (leer_dato hb) refs')"
    unfolding S_def cmp_eq by (rule sort_js_map)
  also have "\<dots> = sort_js (\<lambda>x y. area y - area x) (map proyectar cs)" by (simp only: mb)
  finally have rd: "map (leer_dato hc) S = sort_js (\<lambda>x y. area y - area x) (map proyectar cs)" .
  have val: "\<forall>d\<in>set S. \<exists>b. d = Ref b \<and> b < length hc"
  proof
    fix d assume "d \<in> set S"
    then obtain i where "i < ?n" and "d = Ref (M + i)" using in_refs setS by blast
    then show "\<exists>b. d = Ref b \<and> b < length hc" by (simp add: lhc)
  qed
  have arr_c: "hc ! (M + ?n) = Arreglo S" by (simp add: hc_def lhb)
  have "M + ?n < length hc" by (simp add: lhc)
  then show ?thesis using arr_c val rd by (simp add: dm)
qed

text \<open>On a parsed class mapping the renderer on the store computes the labels, areas,
  colours and tooltip percentages of the chart of \<open>crearGraficoEnPopup\<close>.\<close>

lemma crearGraficoEnPopup_m_igual:
  assumes pre: "prefix (snd (parse_mapa celda_clase cs h0)) h"
    and canvas: "canvasId provinciaNombre \<in> set (canvases s)"
  shows "\<exists>g. chart (crearGraficoEnPopup provinciaNombre cs s) = Some g
     \<and> fst (crearGraficoEnPopup_m (fst (parse_mapa celda_clase cs h0)) h)
         = (labels g, data g, backgroundColor g, map porcentaje_dato (datos_tooltip g))"
proof -
  let ?dm = "datos_m (fst (parse_mapa celda_clase cs h0)) h"
  let ?D = "sort_js (\<lambda>x y. area y - area x) (map proyectar cs)"
  from datos_m_leer [OF pre] obtain a S where
    r: "fst ?dm = Ref a" and a: "a < length (snd ?dm)" and arr: "snd ?dm ! a = Arreglo S"
    and val: "\<forall>d\<in>set S. \<exists>b. d = Ref b \<and> b < length (snd ?dm)"
    and rd: "map (leer_dato (snd ?dm)) S = ?D"
    by blast
  have cols: "fst (columnas_m (Ref a) (snd ?dm))
           = (map (\<lambda>d. cadena (propiedad (snd ?dm) d ''nombre'')) S,
              map (\<lambda>d. numero (propiedad (snd ?dm) d ''area'')) S,
              map (\<lambda>d. cadena (propiedad (snd ?dm) d ''color'')) S,
              map (\<lambda>d. numero (propiedad (snd ?dm) d ''porcentaje'')) S)"
    using a arr val by (rule columnas_m_leer)
  have n: "map (\<lambda>d. cadena (propiedad (snd ?dm) d ''nombre'')) S = map nombre_dato ?D"
    and ar: "map (\<lambda>d. numero (propiedad (snd ?dm) d ''area'')) S = map area ?D"
    and co: "map (\<lambda>d. cadena (propiedad (snd ?dm) d ''color'')) S = map color_dato ?D"
    and po: "map (\<lambda>d. numero (propiedad (snd ?dm) d ''porcentaje'')) S = map porcentaje_dato ?D"
    unfolding rd [symmetric] by (simp_all add: leer_dato_def)
  have "fst (crearGraficoEnPopup_m (fst (parse_mapa celda_clase cs h0)) h)
          = (map nombre_dato ?D, map area ?D, map color_dato ?D, map porcentaje_dato ?D)"
    using cols r by (simp add: crearGraficoEnPopup_m_def Let_def case_prod_beta n ar co po)
  then show ?thesis using canvas by (simp add: crearGraficoEnPopup_def Let_def)
qed

end
